theory Spec2Isabelle
  imports Main "HOL-Library.Sublist" "HOL-Library.AList" "HOL-Library.Word" "HOL-Library.Char_ord" "HOL-Library.List_Lexorder"
begin

unbundle bit_operations_syntax

section \<open>Wire messages and the client\<close>

text \<open>
  Go strings and byte slices are both sequences of bytes; \<open>string(buf)\<close> keeps the bytes
  as they are. Both are modelled as \<^typ>\<open>string\<close> (a list of 8-bit characters).
\<close>

type_synonym bytes = string

datatype stream = StreamOut | StreamErr

record mount =
  Host :: string
  Container :: string
  Writable :: bool

record config =
  Chroot :: bool
  Mounts :: "mount list"

datatype message =
    Config config
  | Execute string
  | Copy string string
  | InitFromDocker string string
  | Result string
  | Log stream string

text \<open>
  Modelled from the spec: the package \<open>client\<close> (\<open>client.New\<close>, \<open>Send\<close>, \<open>Receive\<close>) is
  not among the sources. The spec says that \<open>Send\<close> is blocking and that frames never
  interleave. A client is modelled by the frames it has delivered (\<open>outbox\<close>), the number of
  \<open>Send\<close> calls made so far (\<open>calls\<close>) and the behaviour of the peer (\<open>accepts k\<close> tells whether
  the \<open>k\<close>-th call of \<open>Send\<close> succeeds). A failed \<open>Send\<close> delivers nothing.
\<close>

record client =
  accepts :: "nat \<Rightarrow> bool"
  calls :: nat
  outbox :: "message list"

text \<open>
  Go errors as values. \<open>Wrap msg e\<close> is \<open>fmt.Errorf("msg: %w", e)\<close>; \<open>errors.WithStack\<close> keeps
  the error and its text, so it is not a constructor. \<open>Retryable e\<close> is \<open>retry.Retryable(e)\<close>.
\<close>

datatype errno = EEXIST | ENOTEMPTY | ENOENT | ENOTDIR | EISDIR | EINVAL | EPERM | EBUSY | ELOOP | EIO

datatype error =
    Errno errno
  | EOF
  | Canceled
  | Msg string
  | Wrap string error
  | Retryable error

definition Send :: "client \<Rightarrow> message \<Rightarrow> error option \<times> client" where
  "Send c m =
     (if accepts c (calls c)
      then (None, c\<lparr>calls := Suc (calls c), outbox := outbox c @ [m]\<rparr>)
      else (Some (Msg ''send failed''), c\<lparr>calls := Suc (calls c)\<rparr>))"

section \<open>The log transmitter\<close>

record logTransmitter =
  stream :: stream
  buf :: bytes

text \<open>
  \<open>logTransmitter.Write\<close>: the result is the transmitter, the client, the number of bytes
  reported as written and the error.
\<close>

definition Write :: "logTransmitter \<Rightarrow> client \<Rightarrow> bytes \<Rightarrow> logTransmitter \<times> client \<times> nat \<times> error option" where
  "Write lt c data =
     (let len = length (buf lt) + length data in
      if len < 100 then (lt\<lparr>buf := buf lt @ data\<rparr>, c, length data, None)
      else
        (let b = buf lt @ data in
         case Send c (Log (stream lt) b) of
           (Some err, c') \<Rightarrow> (lt, c', 0, Some err)
         | (None, c') \<Rightarrow> (lt\<lparr>buf := []\<rparr>, c', length data, None)))"

definition Flush :: "logTransmitter \<Rightarrow> client \<Rightarrow> logTransmitter \<times> client \<times> error option" where
  "Flush lt c =
     (if length (buf lt) = 0 then (lt, c, None)
      else
        (case Send c (Log (stream lt) (buf lt)) of
           (Some err, c') \<Rightarrow> (lt, c', Some err)
         | (None, c') \<Rightarrow> (lt\<lparr>buf := []\<rparr>, c', None)))"

text \<open>A sequence of \<open>Write\<close> calls on one transmitter, each on the state the previous one left.\<close>

fun Writes :: "logTransmitter \<Rightarrow> client \<Rightarrow> bytes list \<Rightarrow> logTransmitter \<times> client" where
  "Writes lt c [] = (lt, c)"
| "Writes lt c (d # ds) = (case Write lt c d of (lt', c', _, _) \<Rightarrow> Writes lt' c' ds)"

text \<open>The text of the \<open>Log\<close> frames of a list of messages, in order.\<close>

fun log_text :: "message list \<Rightarrow> bytes" where
  "log_text [] = []"
| "log_text (Log s t # ms) = t @ log_text ms"
| "log_text (m # ms) = log_text ms"


section \<open>Paths: the functions of \<open>path/filepath\<close> that the code calls\<close>

text \<open>
  \<open>filepath.Clean\<close>, \<open>Join\<close>, \<open>Dir\<close> and \<open>Base\<close> for Unix paths, element by element:
  \<open>Clean\<close> drops empty and \<open>.\<close> elements, lets \<open>..\<close> remove the element before it, keeps a
  leading run of \<open>..\<close> in a relative path and drops \<open>..\<close> at the root of a rooted one; the
  empty result is \<open>.\<close>. \<open>Join\<close> ignores leading empty elements, joins the rest with \<open>/\<close> and
  cleans the result.
\<close>

fun splitSep :: "string \<Rightarrow> string list" where
  "splitSep [] = [[]]"
| "splitSep (c # cs) =
     (if c = CHR ''/'' then [] # splitSep cs
      else (case splitSep cs of [] \<Rightarrow> [[c]] | x # xs \<Rightarrow> (c # x) # xs))"

fun joinSep :: "string list \<Rightarrow> string" where
  "joinSep [] = []"
| "joinSep [x] = x"
| "joinSep (x # y # ys) = x @ ''/'' @ joinSep (y # ys)"

definition rooted :: "string \<Rightarrow> bool" where
  "rooted path = (case path of [] \<Rightarrow> False | c # _ \<Rightarrow> c = CHR ''/'')"

fun cleanElems :: "bool \<Rightarrow> string list \<Rightarrow> string list \<Rightarrow> string list" where
  "cleanElems r out [] = out"
| "cleanElems r out (e # es) =
     (if e = [] \<or> e = ''.'' then cleanElems r out es
      else if e = ''..'' then
        (if out \<noteq> [] \<and> last out \<noteq> ''..'' then cleanElems r (butlast out) es
         else if \<not> r then cleanElems r (out @ [''..'']) es
         else cleanElems r out es)
      else cleanElems r (out @ [e]) es)"

definition Clean :: "string \<Rightarrow> string" where
  "Clean path =
     (if path = [] then ''.''
      else
        (let out = cleanElems (rooted path) [] (splitSep path) in
         if rooted path then ''/'' @ joinSep out
         else if out = [] then ''.'' else joinSep out))"

definition Join :: "string list \<Rightarrow> string" where
  "Join elem =
     (case dropWhile (\<lambda>e. e = []) elem of
        [] \<Rightarrow> []
      | es \<Rightarrow> Clean (joinSep es))"

definition Dir :: "string \<Rightarrow> string" where
  "Dir path = Clean (rev (dropWhile (\<lambda>c. c \<noteq> CHR ''/'') (rev path)))"

definition Base :: "string \<Rightarrow> string" where
  "Base path =
     (if path = [] then ''.''
      else
        (let p = rev (dropWhile (\<lambda>c. c = CHR ''/'') (rev path));
             b = rev (takeWhile (\<lambda>c. c \<noteq> CHR ''/'') (rev p))
         in if b = [] then ''/'' else b))"

text \<open>
  A path that the executor uses before the pivot is interpreted from its working directory,
  the new root. It stays inside the new root when it is relative and, once cleaned, does not
  begin with a \<open>..\<close> element.
\<close>

definition confined :: "string \<Rightarrow> bool" where
  "confined path = (\<not> rooted path \<and> hd (splitSep (Clean path)) \<noteq> ''..'')"

text \<open>
  Elements of a cleaned path: \<open>clean_elem\<close> holds of an element that is not empty and has no
  separator, \<open>plain_elem\<close> of one that also is neither \<open>.\<close> nor \<open>..\<close>.
\<close>

definition clean_elem :: "string \<Rightarrow> bool" where
  "clean_elem x = (x \<noteq> [] \<and> CHR ''/'' \<notin> set x)"

definition plain_elem :: "string \<Rightarrow> bool" where
  "plain_elem x = (x \<noteq> [] \<and> x \<noteq> ''.'' \<and> x \<noteq> ''..'' \<and> CHR ''/'' \<notin> set x)"


section \<open>The sandbox builder\<close>

text \<open>
  The system calls of the sandbox builder are recorded in the order they are made. What each
  call returns is decided by the kernel, a function of the calls made so far and of the call.
\<close>

definition MS_RDONLY :: "64 word" where "MS_RDONLY = 0x1"
definition MS_REMOUNT :: "64 word" where "MS_REMOUNT = 0x20"
definition MS_BIND :: "64 word" where "MS_BIND = 0x1000"
definition MS_REC :: "64 word" where "MS_REC = 0x4000"
definition MS_PRIVATE :: "64 word" where "MS_PRIVATE = 0x40000"
definition MS_SLAVE :: "64 word" where "MS_SLAVE = 0x80000"
definition MNT_DETACH :: int where "MNT_DETACH = 0x2"
definition O_RDONLY :: int where "O_RDONLY = 0x0"
definition O_CREATE :: int where "O_CREATE = 0x40"

text \<open>
  \<open>os.FileMode\<close> is a 32-bit word: the nine permission bits and, above them, Go's own bits for
  the file type and for setuid, setgid and sticky. The constants \<open>perm_755\<close> and so on are the
  octal literals \<open>0o755\<close>, \<open>0o777\<close>, \<open>0o644\<close>, \<open>0o700\<close> of the source.
\<close>

definition ModeDir :: "32 word" where "ModeDir = push_bit 31 1"
definition ModeSymlink :: "32 word" where "ModeSymlink = push_bit 27 1"
definition ModeDevice :: "32 word" where "ModeDevice = push_bit 26 1"
definition ModeNamedPipe :: "32 word" where "ModeNamedPipe = push_bit 25 1"
definition ModeSocket :: "32 word" where "ModeSocket = push_bit 24 1"
definition ModeSetuid :: "32 word" where "ModeSetuid = push_bit 23 1"
definition ModeSetgid :: "32 word" where "ModeSetgid = push_bit 22 1"
definition ModeCharDevice :: "32 word" where "ModeCharDevice = push_bit 21 1"
definition ModeSticky :: "32 word" where "ModeSticky = push_bit 20 1"

definition perm_755 :: "32 word" where "perm_755 = 493"
definition perm_777 :: "32 word" where "perm_777 = 511"
definition perm_644 :: "32 word" where "perm_644 = 420"
definition perm_700 :: "32 word" where "perm_700 = 448"

datatype sysop =
    SysMount string string string "64 word" string
  | SysMkdir string "32 word"
  | SysMkdirAll string "32 word"
  | SysChdir string
  | SysOpenFile string int "32 word"
  | SysClose string
  | SysSymlink string string
  | SysPivotRoot string string
  | SysUnmount string int
  | SysRemove string
  | SysWriteFile string bytes "32 word"
  | SysChrootEnter string
  | SysChrootExit

type_synonym kernel = "sysop list \<Rightarrow> sysop \<Rightarrow> errno option"

definition sys :: "kernel \<Rightarrow> sysop list \<Rightarrow> sysop \<Rightarrow> errno option \<times> sysop list" where
  "sys k tr op = (k tr op, tr @ [op])"

definition IsExist :: "errno \<Rightarrow> bool" where
  "IsExist e = (e = EEXIST \<or> e = ENOTEMPTY)"

definition IsNotExist :: "errno \<Rightarrow> bool" where
  "IsNotExist e = (e = ENOENT)"

text \<open>
  \<open>call\<close> is a system call whose error is returned, wrapped by \<open>w\<close>; \<open>callExist\<close> is one whose
  error is returned unless \<open>os.IsExist\<close> holds of it; \<open>seq\<close> goes on with the next statement
  when the one before returned no error.
\<close>

definition call :: "kernel \<Rightarrow> sysop \<Rightarrow> (error \<Rightarrow> error) \<Rightarrow> sysop list \<Rightarrow> error option \<times> sysop list" where
  "call k op w tr =
     (case sys k tr op of
        (None, tr') \<Rightarrow> (None, tr')
      | (Some e, tr') \<Rightarrow> (Some (w (Errno e)), tr'))"

definition callExist :: "kernel \<Rightarrow> sysop \<Rightarrow> sysop list \<Rightarrow> error option \<times> sysop list" where
  "callExist k op tr =
     (case sys k tr op of
        (None, tr') \<Rightarrow> (None, tr')
      | (Some e, tr') \<Rightarrow> (if \<not> IsExist e then (Some (Errno e), tr') else (None, tr')))"

definition seq :: "error option \<times> sysop list \<Rightarrow> (sysop list \<Rightarrow> error option \<times> sysop list)
    \<Rightarrow> error option \<times> sysop list" where
  "seq r f = (case r of (Some e, tr) \<Rightarrow> (Some e, tr) | (None, tr) \<Rightarrow> f tr)"

definition wrapErr :: "string \<Rightarrow> error option \<times> sysop list \<Rightarrow> error option \<times> sysop list" where
  "wrapErr msg r = (case r of (Some e, tr) \<Rightarrow> (Some (Wrap msg e), tr) | (None, tr) \<Rightarrow> (None, tr))"

definition prepareNewRoot :: "kernel \<Rightarrow> sysop list \<Rightarrow> error option \<times> sysop list" where
  "prepareNewRoot k tr =
     seq (call k (SysMount '''' ''/'' '''' (MS_SLAVE OR MS_REC) '''')
            (Wrap ''remounting / as slave failed'') tr) (\<lambda>tr.
     seq (callExist k (SysMkdir ''root'' perm_755) tr) (\<lambda>tr.
     seq (call k (SysMount ''root'' ''root'' '''' (MS_BIND OR MS_PRIVATE) '''')
            (Wrap ''binding new root to itself failed'') tr) (\<lambda>tr.
     call k (SysChdir ''root'') id tr)))"

definition mountProc :: "kernel \<Rightarrow> sysop list \<Rightarrow> error option \<times> sysop list" where
  "mountProc k tr =
     seq (callExist k (SysMkdir ''proc'' perm_755) tr) (\<lambda>tr.
     call k (SysMount ''none'' ''proc'' ''proc'' 0 '''') (Wrap ''mounting proc failed'') tr)"

definition mountTmp :: "kernel \<Rightarrow> sysop list \<Rightarrow> error option \<times> sysop list" where
  "mountTmp k tr =
     seq (callExist k (SysMkdir ''tmp'' (perm_777 OR ModeSticky)) tr) (\<lambda>tr.
     call k (SysMount ''none'' ''tmp'' ''tmpfs'' 0 '''') (Wrap ''mounting tmp failed'') tr)"

fun devNodes :: "kernel \<Rightarrow> string \<Rightarrow> string list \<Rightarrow> sysop list \<Rightarrow> error option \<times> sysop list" where
  "devNodes k devDir [] tr = (None, tr)"
| "devNodes k devDir (dev # devs) tr =
     (let devPath = Join [devDir, dev] in
      seq (call k (SysOpenFile devPath (O_CREATE OR O_RDONLY) perm_644)
             (Wrap (''creating dev/'' @ dev @ '' file failed'')) tr) (\<lambda>tr.
      seq (call k (SysClose devPath) (Wrap (''closing dev/'' @ dev @ '' file failed'')) tr) (\<lambda>tr.
      seq (call k (SysMount (Join [''/'', devPath]) devPath '''' (MS_BIND OR MS_PRIVATE) '''')
             (Wrap (''binding dev/'' @ dev @ '' device failed'')) tr)
          (devNodes k devDir devs))))"

fun devLinks :: "kernel \<Rightarrow> string \<Rightarrow> (string \<times> string) list \<Rightarrow> sysop list \<Rightarrow> error option \<times> sysop list" where
  "devLinks k devDir [] tr = (None, tr)"
| "devLinks k devDir ((newName, oldName) # ls) tr =
     seq (call k (SysSymlink oldName (devDir @ ''/'' @ newName)) id tr) (devLinks k devDir ls)"

definition links :: "(string \<times> string) list" where
  "links = [(''fd'', ''/proc/self/fd''), (''stdin'', ''fd/0''), (''stdout'', ''fd/1''),
            (''stderr'', ''fd/2'')]"

text \<open>
  \<open>links\<close> is a Go map, and the order in which \<open>range\<close> visits a map is not specified:
  \<open>populateDev\<close> takes the order of the visit, \<open>order\<close>, a rearrangement of \<open>links\<close>.
\<close>

definition populateDev :: "kernel \<Rightarrow> (string \<times> string) list \<Rightarrow> sysop list \<Rightarrow> error option \<times> sysop list" where
  "populateDev k order tr =
     (let devDir = ''dev'' in
      seq (callExist k (SysMkdir devDir perm_755) tr) (\<lambda>tr.
      seq (call k (SysMount ''none'' devDir ''tmpfs'' 0 '''')
             (Wrap ''mounting tmpfs for dev failed'') tr) (\<lambda>tr.
      seq (devNodes k devDir [''console'', ''null'', ''zero'', ''random'', ''urandom''] tr)
          (devLinks k devDir order))))"

fun applyMounts :: "kernel \<Rightarrow> mount list \<Rightarrow> sysop list \<Rightarrow> error option \<times> sysop list" where
  "applyMounts k [] tr = (None, tr)"
| "applyMounts k (m0 # mounts) tr =
     (let m = m0\<lparr>Container := Join [''.'', Container m0]\<rparr> in
      seq (callExist k (SysMkdirAll (Container m) perm_700) tr) (\<lambda>tr.
      seq (call k (SysMount (Host m) (Container m) '''' (MS_BIND OR MS_PRIVATE) '''')
             (Wrap (''mounting '' @ Host m @ '' to '' @ Container m @ '' failed'')) tr) (\<lambda>tr.
      seq (if \<not> Writable m
           then call k (SysMount (Host m) (Container m) ''''
                          (MS_BIND OR MS_PRIVATE OR MS_REMOUNT OR MS_RDONLY) '''')
                  (Wrap (''remounting readonly '' @ Host m @ '' to '' @ Container m @ '' failed'')) tr
           else (None, tr))
          (applyMounts k mounts))))"

definition pivotRoot :: "kernel \<Rightarrow> sysop list \<Rightarrow> error option \<times> sysop list" where
  "pivotRoot k tr =
     seq (call k (SysMkdir ''.old'' perm_700) id tr) (\<lambda>tr.
     seq (call k (SysPivotRoot ''.'' ''.old'') (Wrap ''pivoting / failed'') tr) (\<lambda>tr.
     seq (call k (SysMount '''' ''.old'' '''' (MS_PRIVATE OR MS_REC) '''')
            (Wrap ''remounting .old as private failed'') tr) (\<lambda>tr.
     seq (call k (SysUnmount ''.old'' MNT_DETACH) (Wrap ''unmounting .old failed'') tr) (\<lambda>tr.
     call k (SysRemove ''.old'') id tr))))"

definition resolv_conf :: bytes where
  "resolv_conf = ''nameserver 8.8.8.8'' @ [CHR 0x0A] @ ''nameserver 8.8.4.4'' @ [CHR 0x0A]"

definition configureDNS :: "kernel \<Rightarrow> sysop list \<Rightarrow> error option \<times> sysop list" where
  "configureDNS k tr =
     seq (callExist k (SysMkdir ''etc'' perm_755) tr) (\<lambda>tr.
     call k (SysWriteFile ''etc/resolv.conf'' resolv_conf perm_644) id tr)"

text \<open>The namespace branch of \<open>Run\<close> (the \<open>else\<close> of \<open>if config.Chroot\<close>).\<close>

definition namespaceSetup :: "kernel \<Rightarrow> (string \<times> string) list \<Rightarrow> mount list \<Rightarrow> sysop list
    \<Rightarrow> error option \<times> sysop list" where
  "namespaceSetup k order mounts tr =
     seq (wrapErr ''preparing new root filesystem failed'' (prepareNewRoot k tr)) (\<lambda>tr.
     seq (mountProc k tr) (\<lambda>tr.
     seq (mountTmp k tr) (\<lambda>tr.
     seq (populateDev k order tr) (\<lambda>tr.
     seq (wrapErr ''mounting host directories failed'' (applyMounts k mounts tr)) (\<lambda>tr.
     seq (wrapErr ''pivoting root filesystem failed'' (pivotRoot k tr)) (\<lambda>tr.
     configureDNS k tr))))))"







section \<open>The executor\<close>

text \<open>
  What the executor reads from its standard input is a script of the results of \<open>Receive\<close>, in
  order: a frame, or a failure with the error of \<open>Receive\<close> and the value that \<open>ctx.Err()\<close> has
  when the failure is handled. The watchdog of \<open>Run\<close> closes the standard input when the context
  is cancelled: \<open>Receive\<close> then fails and \<open>ctx.Err()\<close> is set. When the script is exhausted no
  frame ever arrives, \<open>Receive\<close> blocks and \<open>Run\<close> does not return (\<open>Blocked\<close>).
\<close>

datatype recv = Frame message | RecvFail error "error option"

datatype outcome = Returned "error option" | Blocked

text \<open>
  The handlers' collaborators are outside the repository (\<open>libexec.Exec\<close>, \<open>cp.Copy\<close>) or
  modelled on their own below (\<open>docker.Apply\<close>); the dispatch loop uses only the error they
  return. Each is a function of the number of requests handled before and of the request.
  For \<open>Execute\<close>, \<open>shell\<close> gives the calls of \<open>Write\<close> that the command's output makes on the two
  transmitters, in the order they happen, and the error of \<open>libexec.Exec\<close>.
\<close>

record env =
  kernel :: kernel
  links_order :: "(string \<times> string) list"
  shell :: "nat \<Rightarrow> string \<Rightarrow> (stream \<times> bytes) list \<times> error option"
  copy :: "nat \<Rightarrow> string \<Rightarrow> string \<Rightarrow> error option"
  dockerApply :: "nat \<Rightarrow> string \<Rightarrow> string \<Rightarrow> error option"

record world =
  wire :: client
  ops :: "sysop list"
  handled :: "message list"

fun Error_text :: "error \<Rightarrow> string" where
  "Error_text (Errno e) =
     (case e of EEXIST \<Rightarrow> ''file exists'' | ENOTEMPTY \<Rightarrow> ''directory not empty''
      | ENOENT \<Rightarrow> ''no such file or directory'' | ENOTDIR \<Rightarrow> ''not a directory''
      | EISDIR \<Rightarrow> ''is a directory'' | EINVAL \<Rightarrow> ''invalid argument''
      | EPERM \<Rightarrow> ''operation not permitted'' | EBUSY \<Rightarrow> ''device or resource busy''
      | ELOOP \<Rightarrow> ''too many levels of symbolic links'' | EIO \<Rightarrow> ''input/output error'')"
| "Error_text EOF = ''EOF''"
| "Error_text Canceled = ''context canceled''"
| "Error_text (Msg s) = s"
| "Error_text (Wrap s e) = s @ '': '' @ Error_text e"
| "Error_text (Retryable e) = Error_text e"

text \<open>\<open>errors.Is(err, io.EOF)\<close>: \<open>io.EOF\<close> itself or an error that wraps it.\<close>

fun is_EOF :: "error \<Rightarrow> bool" where
  "is_EOF EOF = True"
| "is_EOF (Wrap s e) = is_EOF e"
| "is_EOF (Retryable e) = is_EOF e"
| "is_EOF e = False"

text \<open>The \<open>%T\<close> of a message.\<close>

fun type_name :: "message \<Rightarrow> string" where
  "type_name (Config c) = ''wire.Config''"
| "type_name (Execute c) = ''wire.Execute''"
| "type_name (Copy s d) = ''wire.Copy''"
| "type_name (InitFromDocker i t) = ''wire.InitFromDocker''"
| "type_name (Result e) = ''wire.Result''"
| "type_name (Log s t) = ''wire.Log''"

fun pump :: "logTransmitter \<Rightarrow> logTransmitter \<Rightarrow> client \<Rightarrow> (stream \<times> bytes) list
    \<Rightarrow> logTransmitter \<times> logTransmitter \<times> client" where
  "pump outT errT c [] = (outT, errT, c)"
| "pump outT errT c ((StreamOut, d) # ws) =
     (case Write outT c d of (outT', c', _, _) \<Rightarrow> pump outT' errT c' ws)"
| "pump outT errT c ((StreamErr, d) # ws) =
     (case Write errT c d of (errT', c', _, _) \<Rightarrow> pump outT errT' c' ws)"

definition execute :: "env \<Rightarrow> nat \<Rightarrow> client \<Rightarrow> string \<Rightarrow> error option \<times> client" where
  "execute ev n c command =
     (let outTransmitter = \<lparr>stream = StreamOut, buf = []\<rparr>;
          errTransmitter = \<lparr>stream = StreamErr, buf = []\<rparr>;
          (writes, err) = shell ev n command;
          (outT, errT, c1) = pump outTransmitter errTransmitter c writes;
          (_, c2, _) = Flush outT c1;
          (_, c3, _) = Flush errT c2
      in (err, c3))"

text \<open>
  The \<open>switch\<close> of the dispatch loop: the handler's error and the world after it, or \<open>None\<close> for a
  message that is no request (the \<open>default\<close> branch).
\<close>

definition dispatch :: "env \<Rightarrow> world \<Rightarrow> message \<Rightarrow> (error option \<times> world) option" where
  "dispatch ev w msg =
     (let n = length (handled w); w' = w\<lparr>handled := handled w @ [msg]\<rparr> in
      case msg of
        Execute command \<Rightarrow>
          (case execute ev n (wire w) command of (err, c) \<Rightarrow> Some (err, w'\<lparr>wire := c\<rparr>))
      | Copy src dst \<Rightarrow> Some (copy ev n src dst, w')
      | InitFromDocker img tag \<Rightarrow> Some (dockerApply ev n img tag, w')
      | _ \<Rightarrow> None)"

fun loop :: "env \<Rightarrow> recv list \<Rightarrow> world \<Rightarrow> outcome \<times> world" where
  "loop ev [] w = (Blocked, w)"
| "loop ev (RecvFail err ctxErr # rest) w =
     (if ctxErr \<noteq> None \<or> is_EOF err then (Returned ctxErr, w)
      else (Returned (Some (Wrap ''receiving message failed'' err)), w))"
| "loop ev (Frame msg # rest) w =
     (case dispatch ev w msg of
        None \<Rightarrow> (Returned (Some (Msg (''unexpected message: '' @ type_name msg))), w)
      | Some (err, w1) \<Rightarrow>
          (let errStr = (case err of None \<Rightarrow> [] | Some e \<Rightarrow> Error_text e) in
           case Send (wire w1) (Result errStr) of
             (Some e, c) \<Rightarrow>
               (Returned (Some (Wrap ''command status reporting failed'' e)), w1\<lparr>wire := c\<rparr>)
           | (None, c) \<Rightarrow> loop ev rest (w1\<lparr>wire := c\<rparr>)))"

text \<open>
  The task \<open>server\<close> of \<open>Run\<close>. \<open>chroot.Enter\<close> is outside the sources: it is one call, and the
  function it returns, deferred by \<open>Run\<close>, is another, made when \<open>server\<close> returns.
\<close>

definition server :: "env \<Rightarrow> recv list \<Rightarrow> world \<Rightarrow> outcome \<times> world" where
  "server ev inbox w =
     (case inbox of
        [] \<Rightarrow> (Blocked, w)
      | RecvFail err ctxErr # rest \<Rightarrow>
          (Returned (Some (Wrap ''fetching configuration failed'' err)), w)
      | Frame msg # rest \<Rightarrow>
          (case msg of
             Config cfg \<Rightarrow>
               (if Chroot cfg then
                  (case sys (kernel ev) (ops w) (SysChrootEnter ''.'') of
                     (Some e, tr) \<Rightarrow> (Returned (Some (Errno e)), w\<lparr>ops := tr\<rparr>)
                   | (None, tr) \<Rightarrow>
                       (case loop ev rest (w\<lparr>ops := tr\<rparr>) of
                          (Blocked, w') \<Rightarrow> (Blocked, w')
                        | (Returned r, w') \<Rightarrow>
                            (Returned r, w'\<lparr>ops := snd (sys (kernel ev) (ops w') SysChrootExit)\<rparr>)))
                else
                  (case namespaceSetup (kernel ev) (links_order ev) (Mounts cfg) (ops w) of
                     (Some e, tr) \<Rightarrow> (Returned (Some e), w\<lparr>ops := tr\<rparr>)
                   | (None, tr) \<Rightarrow> loop ev rest (w\<lparr>ops := tr\<rparr>)))
           | _ \<Rightarrow>
               (Returned (Some (Msg (''expected Config message but got: '' @ type_name msg))), w)))"

text \<open>
  \<open>Run\<close> starts the watchdog and the server with \<open>parallel.Run\<close> (outside the repository); the
  server is spawned with \<open>parallel.Exit\<close>, so \<open>Run\<close> ends when the server returns, with its error.
\<close>

definition Run :: "env \<Rightarrow> recv list \<Rightarrow> world \<Rightarrow> outcome \<times> world" where
  "Run ev inbox w = server ev inbox w"




section \<open>The file system under the layer applier\<close>

text \<open>
  The layer applier works on the file system through the functions of package \<open>os\<close>. The file
  system is modelled as the names that exist, each the list of the elements of its path from
  the working directory (the root of the image), with the number of the inode it names; the
  inodes hold the content, the owner and the mode bits. Two names of one inode are hard links.
  The root, the empty path, always is a directory.

  What the model leaves out: the umask and permission checks are absent (the applier runs as
  root), and no operation fails for a reason outside the tree (\<open>EIO\<close>, a full disk). Every call
  is recorded in \<open>oplog\<close>, in order, with its arguments.

  How a name is resolved: lexically. The name is cleaned (\<open>resolve\<close>) and its elements are
  walked from the root without following symbolic links. The kernel resolves a name element by
  element in the tree, and the two differ in two cases. A symbolic link among the parents of
  the name: the kernel follows it, here the operation fails with \<open>ELOOP\<close>. An element \<open>.\<close> or
  \<open>..\<close>: the kernel fails when the element before it is missing or is no directory, and the
  functions of package \<open>os\<close> treat a name that ends in one of them in their own way; here \<open>..\<close>
  cancels the element before it. For a relative name with no element \<open>.\<close> or \<open>..\<close>
  (\<open>plain_name\<close>) in a tree where no parent of the name is a symbolic link (\<open>no_link_above\<close>)
  the two agree.
\<close>

type_synonym path = "string list"

datatype content = Regular bytes | Directory | Symbolic string

record inode =
  content :: content
  uid :: int
  gid :: int
  perm :: "32 word"

datatype fsop =
    OpRemoveAll string
  | OpReadDir string
  | OpMkdirAll string "32 word"
  | OpOpenFile string int "32 word"
  | OpCopy string bytes
  | OpClose string
  | OpSymlink string string
  | OpLink string string
  | OpLchown string int int
  | OpChmod string "32 word"

record filesys =
  names :: "(path \<times> nat) list"
  inodes :: "nat \<Rightarrow> inode"
  next_ino :: nat
  oplog :: "fsop list"

definition O_WRONLY :: int where "O_WRONLY = 0x1"
definition O_EXCL :: int where "O_EXCL = 0x80"

definition resolve :: "string \<Rightarrow> path" where
  "resolve s = cleanElems True [] (splitSep s)"

definition root_inode :: inode where
  "root_inode = \<lparr>content = Directory, uid = 0, gid = 0, perm = perm_755\<rparr>"

definition node_at :: "filesys \<Rightarrow> path \<Rightarrow> inode option" where
  "node_at fs p =
     (if p = [] then Some root_inode else map_option (inodes fs) (map_of (names fs) p))"

text \<open>
  \<open>walk fs cur p\<close> goes from the directory \<open>cur\<close> through the elements of \<open>p\<close> but the last:
  each must be a directory. A symbolic link among them, which the kernel would follow, ends
  the walk with \<open>ELOOP\<close>.
\<close>

fun walk :: "filesys \<Rightarrow> path \<Rightarrow> path \<Rightarrow> errno option" where
  "walk fs cur [] = None"
| "walk fs cur [x] = None"
| "walk fs cur (x # y # ys) =
     (case node_at fs (cur @ [x]) of
        None \<Rightarrow> Some ENOENT
      | Some n \<Rightarrow>
          (case content n of
             Directory \<Rightarrow> walk fs (cur @ [x]) (y # ys)
           | Symbolic t \<Rightarrow> Some ELOOP
           | Regular b \<Rightarrow> Some ENOTDIR))"



definition logop :: "filesys \<Rightarrow> fsop \<Rightarrow> filesys" where
  "logop fs op = fs\<lparr>oplog := oplog fs @ [op]\<rparr>"

definition create :: "filesys \<Rightarrow> path \<Rightarrow> inode \<Rightarrow> filesys" where
  "create fs p node =
     fs\<lparr>names := AList.update p (next_ino fs) (names fs),
        inodes := (inodes fs)(next_ino fs := node),
        next_ino := Suc (next_ino fs)\<rparr>"

text \<open>
  \<open>syscallMode\<close> of package \<open>os\<close>: the mode bits that reach the system call, the nine permission
  bits and the three special bits at their Unix positions (\<open>0o4000\<close>, \<open>0o2000\<close>, \<open>0o1000\<close>).
\<close>

definition S_ISUID :: "32 word" where "S_ISUID = 0x800"
definition S_ISGID :: "32 word" where "S_ISGID = 0x400"
definition S_ISVTX :: "32 word" where "S_ISVTX = 0x200"

definition syscallMode :: "32 word \<Rightarrow> 32 word" where
  "syscallMode i =
     (let o1 = i AND perm_777;
          o2 = (if i AND ModeSetuid \<noteq> 0 then o1 OR S_ISUID else o1);
          o3 = (if i AND ModeSetgid \<noteq> 0 then o2 OR S_ISGID else o2);
          o4 = (if i AND ModeSticky \<noteq> 0 then o3 OR S_ISVTX else o3)
      in o4)"

text \<open>
  \<open>os.RemoveAll\<close>. Its documentation: it removes the path and any children it contains, and
  ``if the path does not exist, RemoveAll returns nil (no error)''. The empty path gives \<open>nil\<close>;
  a path that ends in the element \<open>.\<close> gives \<open>EINVAL\<close>; a path that names the working directory
  in another way loses its children and then gives \<open>EINVAL\<close>, when the directory itself cannot
  be removed. A parent that is no directory gives \<open>ENOTDIR\<close>. It never returns an error for
  which \<open>os.IsNotExist\<close> holds. What is removed is the cleaned path and the names below it:
  that is what the kernel removes for a \<open>plain_name\<close> with no symbolic link among its parents.
\<close>

definition endsWithDot :: "string \<Rightarrow> bool" where
  "endsWithDot s = (s = ''.'' \<or> suffix ''/.'' s)"

definition os_RemoveAll :: "filesys \<Rightarrow> string \<Rightarrow> errno option \<times> filesys" where
  "os_RemoveAll fs0 s =
     (let fs = logop fs0 (OpRemoveAll s); p = resolve s in
      if s = [] then (None, fs)
      else if endsWithDot s then (Some EINVAL, fs)
      else if p = [] then (Some EINVAL, fs\<lparr>names := []\<rparr>)
      else if walk fs [] p = Some ENOTDIR then (Some ENOTDIR, fs)
      else if walk fs [] p = Some ELOOP then (Some ELOOP, fs)
      else (None, fs\<lparr>names := filter (\<lambda>(q, i). \<not> prefix p q) (names fs)\<rparr>))"

text \<open>\<open>os.ReadDir\<close>: the names of the entries of a directory, sorted.\<close>

definition children :: "filesys \<Rightarrow> path \<Rightarrow> string list" where
  "children fs p =
     sort (remdups (map (\<lambda>(q, i). last q) (filter (\<lambda>(q, i). q \<noteq> [] \<and> butlast q = p) (names fs))))"

definition os_ReadDir :: "filesys \<Rightarrow> string \<Rightarrow> errno option \<times> string list \<times> filesys" where
  "os_ReadDir fs0 s =
     (let fs = logop fs0 (OpReadDir s); p = resolve s in
      if s = [] then (Some ENOENT, [], fs)
      else
        (case walk fs [] p of
           Some e \<Rightarrow> (Some e, [], fs)
         | None \<Rightarrow>
             (case node_at fs p of
                None \<Rightarrow> (Some ENOENT, [], fs)
              | Some n \<Rightarrow>
                  (case content n of
                     Directory \<Rightarrow> (None, children fs p, fs)
                   | Symbolic t \<Rightarrow> (Some ELOOP, [], fs)
                   | Regular b \<Rightarrow> (Some ENOTDIR, [], fs)))))"

text \<open>
  \<open>os.MkdirAll\<close>: creates the directory and the parents that are missing; a directory that
  exists is left as it is.
\<close>

fun mkdirs :: "filesys \<Rightarrow> 32 word \<Rightarrow> path \<Rightarrow> path \<Rightarrow> errno option \<times> filesys" where
  "mkdirs fs m cur [] = (None, fs)"
| "mkdirs fs m cur (x # xs) =
     (case node_at fs (cur @ [x]) of
        None \<Rightarrow>
          mkdirs (create fs (cur @ [x]) \<lparr>content = Directory, uid = 0, gid = 0, perm = m\<rparr>)
            m (cur @ [x]) xs
      | Some n \<Rightarrow>
          (case content n of
             Directory \<Rightarrow> mkdirs fs m (cur @ [x]) xs
           | Symbolic t \<Rightarrow> (Some ELOOP, fs)
           | Regular b \<Rightarrow> (Some ENOTDIR, fs)))"

definition os_MkdirAll :: "filesys \<Rightarrow> string \<Rightarrow> 32 word \<Rightarrow> errno option \<times> filesys" where
  "os_MkdirAll fs0 s mode =
     (let fs = logop fs0 (OpMkdirAll s mode) in
      if s = [] then (Some ENOENT, fs)
      else mkdirs fs (syscallMode mode) [] (resolve s))"

text \<open>
  \<open>os.OpenFile\<close> with \<open>O_CREATE\<close>: the file is created when it is missing. With \<open>O_EXCL\<close> a name
  that exists gives \<open>EEXIST\<close>. The result is the inode of the open file.
\<close>

definition os_OpenFile :: "filesys \<Rightarrow> string \<Rightarrow> int \<Rightarrow> 32 word \<Rightarrow> (errno + nat) \<times> filesys" where
  "os_OpenFile fs0 s flag mode =
     (let fs = logop fs0 (OpOpenFile s flag mode); p = resolve s in
      if s = [] then (Inl ENOENT, fs)
      else if p = [] \<or> suffix ''/'' s then (Inl EISDIR, fs)
      else
        (case walk fs [] p of
           Some e \<Rightarrow> (Inl e, fs)
         | None \<Rightarrow>
             (case map_of (names fs) p of
                None \<Rightarrow>
                  (Inr (next_ino fs),
                   create fs p \<lparr>content = Regular [], uid = 0, gid = 0, perm = syscallMode mode\<rparr>)
              | Some i \<Rightarrow>
                  (if flag AND O_EXCL \<noteq> 0 then (Inl EEXIST, fs)
                   else
                     (case content (inodes fs i) of
                        Regular b \<Rightarrow> (Inr i, fs)
                      | Directory \<Rightarrow> (Inl EISDIR, fs)
                      | Symbolic t \<Rightarrow> (Inl ELOOP, fs))))))"

text \<open>
  \<open>io.Copy(f, tr)\<close> into the open file \<open>i\<close>: the bytes are written from the start of the file
  (the file is not opened with \<open>O_TRUNC\<close>).
\<close>

definition os_Copy :: "filesys \<Rightarrow> string \<Rightarrow> nat \<Rightarrow> bytes \<Rightarrow> filesys" where
  "os_Copy fs0 s i bs =
     (let fs = logop fs0 (OpCopy s bs);
          old = (case content (inodes fs i) of Regular b \<Rightarrow> b | _ \<Rightarrow> [])
      in fs\<lparr>inodes := (inodes fs)(i := (inodes fs i)\<lparr>content := Regular (bs @ drop (length bs) old)\<rparr>)\<rparr>)"

definition os_Close :: "filesys \<Rightarrow> string \<Rightarrow> filesys" where
  "os_Close fs0 s = logop fs0 (OpClose s)"

definition os_Symlink :: "filesys \<Rightarrow> string \<Rightarrow> string \<Rightarrow> errno option \<times> filesys" where
  "os_Symlink fs0 oldname newname =
     (let fs = logop fs0 (OpSymlink oldname newname); p = resolve newname in
      if newname = [] then (Some ENOENT, fs)
      else if p = [] then (Some EEXIST, fs)
      else
        (case walk fs [] p of
           Some e \<Rightarrow> (Some e, fs)
         | None \<Rightarrow>
             (case map_of (names fs) p of
                Some i \<Rightarrow> (Some EEXIST, fs)
              | None \<Rightarrow>
                  (None,
                   create fs p \<lparr>content = Symbolic oldname, uid = 0, gid = 0, perm = perm_777\<rparr>))))"

definition os_Link :: "filesys \<Rightarrow> string \<Rightarrow> string \<Rightarrow> errno option \<times> filesys" where
  "os_Link fs0 oldname newname =
     (let fs = logop fs0 (OpLink oldname newname); po = resolve oldname; pn = resolve newname in
      if oldname = [] \<or> newname = [] then (Some ENOENT, fs)
      else if po = [] then (Some EPERM, fs)
      else
        (case walk fs [] po of
           Some e \<Rightarrow> (Some e, fs)
         | None \<Rightarrow>
             (case map_of (names fs) po of
                None \<Rightarrow> (Some ENOENT, fs)
              | Some i \<Rightarrow>
                  (if content (inodes fs i) = Directory then (Some EPERM, fs)
                   else if pn = [] then (Some EEXIST, fs)
                   else
                     (case walk fs [] pn of
                        Some e \<Rightarrow> (Some e, fs)
                      | None \<Rightarrow>
                          (case map_of (names fs) pn of
                             Some j \<Rightarrow> (Some EEXIST, fs)
                           | None \<Rightarrow> (None, fs\<lparr>names := AList.update pn i (names fs)\<rparr>)))))))"

definition os_Lchown :: "filesys \<Rightarrow> string \<Rightarrow> int \<Rightarrow> int \<Rightarrow> errno option \<times> filesys" where
  "os_Lchown fs0 s u g =
     (let fs = logop fs0 (OpLchown s u g); p = resolve s in
      if s = [] then (Some ENOENT, fs)
      else if p = [] then (None, fs)
      else
        (case walk fs [] p of
           Some e \<Rightarrow> (Some e, fs)
         | None \<Rightarrow>
             (case map_of (names fs) p of
                None \<Rightarrow> (Some ENOENT, fs)
              | Some i \<Rightarrow>
                  (None, fs\<lparr>inodes := (inodes fs)(i := (inodes fs i)\<lparr>uid := u, gid := g\<rparr>)\<rparr>))))"

definition os_Chmod :: "filesys \<Rightarrow> string \<Rightarrow> 32 word \<Rightarrow> errno option \<times> filesys" where
  "os_Chmod fs0 s mode =
     (let fs = logop fs0 (OpChmod s mode); p = resolve s in
      if s = [] then (Some ENOENT, fs)
      else if p = [] then (None, fs)
      else
        (case walk fs [] p of
           Some e \<Rightarrow> (Some e, fs)
         | None \<Rightarrow>
             (case map_of (names fs) p of
                None \<Rightarrow> (Some ENOENT, fs)
              | Some i \<Rightarrow>
                  (case content (inodes fs i) of
                     Symbolic t \<Rightarrow> (Some ELOOP, fs)
                   | _ \<Rightarrow>
                       (None,
                        fs\<lparr>inodes := (inodes fs)(i := (inodes fs i)\<lparr>perm := syscallMode mode\<rparr>)\<rparr>)))))"

section \<open>Package \<open>docker\<close>: the layer applier\<close>

text \<open>
  A tar header with the fields that \<open>increment\<close> reads. \<open>Typeflag\<close> is a byte and \<open>Mode\<close> an
  \<open>int64\<close> holding Unix mode bits.
\<close>

record header =
  Name :: string
  Typeflag :: char
  Linkname :: string
  Uid :: int
  Gid :: int
  Mode :: "64 word"

definition TypeReg :: char where "TypeReg = CHR ''0''"
definition TypeLink :: char where "TypeLink = CHR ''1''"
definition TypeSymlink :: char where "TypeSymlink = CHR ''2''"
definition TypeChar :: char where "TypeChar = CHR ''3''"
definition TypeBlock :: char where "TypeBlock = CHR ''4''"
definition TypeDir :: char where "TypeDir = CHR ''5''"
definition TypeFifo :: char where "TypeFifo = CHR ''6''"

definition c_ISUID :: "64 word" where "c_ISUID = 0x800"
definition c_ISGID :: "64 word" where "c_ISGID = 0x400"
definition c_ISVTX :: "64 word" where "c_ISVTX = 0x200"
definition c_ISDIR :: "32 word" where "c_ISDIR = 0x4000"
definition c_ISFIFO :: "32 word" where "c_ISFIFO = 0x1000"
definition c_ISLNK :: "32 word" where "c_ISLNK = 0xA000"
definition c_ISBLK :: "32 word" where "c_ISBLK = 0x6000"
definition c_ISCHR :: "32 word" where "c_ISCHR = 0x2000"
definition c_ISSOCK :: "32 word" where "c_ISSOCK = 0xC000"

text \<open>
  \<open>header.FileInfo().Mode()\<close> of \<open>archive/tar\<close>, in the two parts of its body: the permission
  bits of the header with Go's bits for setuid, setgid and sticky when the header has them
  (\<open>mode_perm\<close>), then Go's bits for the file type, from the type bits of the header's mode and
  from its type flag (\<open>mode_type\<close>).
\<close>

definition mode_perm :: "header \<Rightarrow> 32 word" where
  "mode_perm h =
     (let m0 = ucast (Mode h) AND perm_777;
          m1 = (if Mode h AND c_ISUID \<noteq> 0 then m0 OR ModeSetuid else m0);
          m2 = (if Mode h AND c_ISGID \<noteq> 0 then m1 OR ModeSetgid else m1);
          m3 = (if Mode h AND c_ISVTX \<noteq> 0 then m2 OR ModeSticky else m2)
      in m3)"

definition mode_type :: "header \<Rightarrow> 32 word \<Rightarrow> 32 word" where
  "mode_type h m3 =
     (let t = (ucast (Mode h) :: 32 word) AND NOT 0xFFF;
          m4 = (if t = c_ISDIR then m3 OR ModeDir
                else if t = c_ISFIFO then m3 OR ModeNamedPipe
                else if t = c_ISLNK then m3 OR ModeSymlink
                else if t = c_ISBLK then m3 OR ModeDevice
                else if t = c_ISCHR then m3 OR ModeDevice OR ModeCharDevice
                else if t = c_ISSOCK then m3 OR ModeSocket
                else m3);
          m5 = (if Typeflag h = TypeSymlink then m4 OR ModeSymlink
                else if Typeflag h = TypeChar then m4 OR ModeDevice OR ModeCharDevice
                else if Typeflag h = TypeBlock then m4 OR ModeDevice
                else if Typeflag h = TypeDir then m4 OR ModeDir
                else if Typeflag h = TypeFifo then m4 OR ModeNamedPipe
                else m4)
      in m5)"

definition FileInfo_Mode :: "header \<Rightarrow> 32 word" where
  "FileInfo_Mode h = mode_type h (mode_perm h)"

text \<open>
  What \<open>tr.Next()\<close> yields for one entry: the header (\<open>nil\<close> is possible for the code), the bytes
  of the entry that \<open>io.Copy\<close> reads from the tar reader, and the error that ends that reading,
  if any.
\<close>

record entry =
  header :: "header option"
  body :: bytes
  body_err :: "error option"

text \<open>
  The state of the loop of \<open>increment\<close>: the maps \<open>del\<close> and \<open>added\<close> (only the value \<open>true\<close> is
  ever stored, so each is the set of its keys) and the file system.
\<close>

record layer_state =
  del :: "string set"
  added :: "string set"
  disk :: filesys

definition HasPrefix :: "string \<Rightarrow> string \<Rightarrow> bool" where
  "HasPrefix s p = prefix p s"

definition TrimPrefix :: "string \<Rightarrow> string \<Rightarrow> string" where
  "TrimPrefix s p = (if HasPrefix s p then drop (length p) s else s)"

definition digit :: "nat \<Rightarrow> char" where
  "digit n = char_of (48 + n)"

function decimal :: "nat \<Rightarrow> string" where
  "decimal n = (if n < 10 then [digit n] else decimal (n div 10) @ [digit (n mod 10)])"
  by pat_completeness auto
termination
  by (relation "measure id") auto

declare decimal.simps [simp del]

text \<open>The loop over the entries of an opaque directory.\<close>

fun opaque_loop :: "string set \<Rightarrow> string \<Rightarrow> string list \<Rightarrow> filesys \<Rightarrow> error option \<times> filesys" where
  "opaque_loop addedSet dir [] fs = (None, fs)"
| "opaque_loop addedSet dir (f # files) fs =
     (let toDelete = Join [dir, f] in
      if toDelete \<in> addedSet then opaque_loop addedSet dir files fs
      else
        (case os_RemoveAll fs toDelete of
           (Some err, fs') \<Rightarrow> (Some (Errno err), fs')
         | (None, fs') \<Rightarrow> opaque_loop addedSet dir files fs'))"

text \<open>The cases of the \<open>switch\<close> that create the entry, by the type of the header.\<close>

definition link_entry :: "header \<Rightarrow> filesys \<Rightarrow> error option \<times> filesys" where
  "link_entry h fs =
     (case os_Link fs (Linkname h) (Name h) of
        (Some err, fs') \<Rightarrow> (Some (Errno err), fs')
      | (None, fs') \<Rightarrow> (None, fs'))"

definition create_entry :: "header \<Rightarrow> 32 word \<Rightarrow> entry \<Rightarrow> filesys \<Rightarrow> error option \<times> filesys" where
  "create_entry h mode e fs =
     (if Typeflag h = TypeDir then
        (case os_MkdirAll fs (Name h) mode of
           (Some err, fs') \<Rightarrow> (Some (Errno err), fs')
         | (None, fs') \<Rightarrow> (None, fs'))
      else if Typeflag h = TypeReg then
        (case os_OpenFile fs (Name h) (O_CREATE OR O_WRONLY) mode of
           (Inl err, fs') \<Rightarrow> (Some (Errno err), fs')
         | (Inr f, fs') \<Rightarrow>
             (let fs2 = os_Close (os_Copy fs' (Name h) f (body e)) (Name h) in
              case body_err e of
                Some err \<Rightarrow> (Some err, fs2)
              | None \<Rightarrow> (None, fs2)))
      else if Typeflag h = TypeSymlink then
        (case os_Symlink fs (Linkname h) (Name h) of
           (Some err, fs') \<Rightarrow> (Some (Errno err), fs')
         | (None, fs') \<Rightarrow> (None, fs'))
      else if Typeflag h = TypeLink then
        (case os_OpenFile fs (Linkname h) (O_CREATE OR O_EXCL) mode of
           (Inl err, fs') \<Rightarrow>
             (if \<not> IsExist err then (Some (Errno err), fs') else link_entry h fs')
         | (Inr f, fs') \<Rightarrow> link_entry h (os_Close fs' (Linkname h)))
      else
        (Some (Msg (''unsupported file type: '' @ decimal (of_char (Typeflag h)))), fs))"

text \<open>What follows the \<open>switch\<close> for an entry that has been created.\<close>

definition finish_entry :: "layer_state \<Rightarrow> header \<Rightarrow> 32 word \<Rightarrow> filesys \<Rightarrow> error option \<times> layer_state" where
  "finish_entry st h mode fs =
     (let st1 = st\<lparr>added := insert (Name h) (added st)\<rparr> in
      case os_Lchown fs (Name h) (Uid h) (Gid h) of
        (Some err, fs') \<Rightarrow> (Some (Errno err), st1\<lparr>disk := fs'\<rparr>)
      | (None, fs') \<Rightarrow>
          (if Typeflag h \<noteq> TypeSymlink then
             (case os_Chmod fs' (Name h) mode of
                (Some err, fs2) \<Rightarrow> (Some (Errno err), st1\<lparr>disk := fs2\<rparr>)
              | (None, fs2) \<Rightarrow> (None, st1\<lparr>disk := fs2\<rparr>))
           else (None, st1\<lparr>disk := fs'\<rparr>)))"

text \<open>
  The body of the loop from the second \<open>switch\<close> on, for the header \<open>h\<close>, once
  \<open>os.RemoveAll(header.Name)\<close> has been called.
\<close>

definition classify :: "layer_state \<Rightarrow> header \<Rightarrow> entry \<Rightarrow> error option \<times> layer_state" where
  "classify st h e =
     (let mode = FileInfo_Mode h in
      if Base (Name h) = ''.wh..wh..plnk'' then (None, st)
      else if Base (Name h) = ''.wh..wh..opq'' then
        (let dir = Dir (Name h) in
         case os_ReadDir (disk st) dir of
           (Some err, files, fs') \<Rightarrow> (Some (Errno err), st\<lparr>disk := fs'\<rparr>)
         | (None, files, fs') \<Rightarrow>
             (case opaque_loop (added st) dir files fs' of
                (r, fs2) \<Rightarrow> (r, st\<lparr>disk := fs2\<rparr>)))
      else if HasPrefix (Base (Name h)) ''.wh.'' then
        (let toDelete = Join [Dir (Name h), TrimPrefix (Base (Name h)) ''.wh.''];
             st1 = st\<lparr>added := added st - {toDelete}\<rparr> in
         case os_RemoveAll (disk st) toDelete of
           (Some err, fs') \<Rightarrow>
             (if IsNotExist err
              then (None, st1\<lparr>del := insert toDelete (del st), disk := fs'\<rparr>)
              else (Some (Errno err), st1\<lparr>disk := fs'\<rparr>))
         | (None, fs') \<Rightarrow> (None, st1\<lparr>disk := fs'\<rparr>))
      else if Name h \<in> del st then
        (None, st\<lparr>del := del st - {Name h}, added := added st - {Name h}\<rparr>)
      else
        (case create_entry h mode e (disk st) of
           (Some err, fs') \<Rightarrow> (Some err, st\<lparr>disk := fs'\<rparr>)
         | (None, fs') \<Rightarrow> finish_entry st h mode fs'))"

text \<open>One turn of the loop of \<open>increment\<close>, for one result of \<open>tr.Next()\<close> with no error.\<close>

definition entry_step :: "layer_state \<Rightarrow> entry \<Rightarrow> error option \<times> layer_state" where
  "entry_step st e =
     (case header e of
        None \<Rightarrow> (None, st)
      | Some h \<Rightarrow>
          (case os_RemoveAll (disk st) (Name h) of
             (Some err, fs') \<Rightarrow>
               (if \<not> IsNotExist err then (Some (Errno err), st\<lparr>disk := fs'\<rparr>)
                else classify (st\<lparr>disk := fs'\<rparr>) h e)
           | (None, fs') \<Rightarrow> classify (st\<lparr>disk := fs'\<rparr>) h e))"

text \<open>
  The loop: the entries that \<open>tr.Next()\<close> yields, then its end, \<open>io.EOF\<close> (\<open>None\<close>) or an error.
\<close>

fun layer_loop :: "layer_state \<Rightarrow> entry list \<Rightarrow> error option \<Rightarrow> error option \<times> layer_state" where
  "layer_loop st [] ending =
     (case ending of None \<Rightarrow> (None, st) | Some err \<Rightarrow> (Some (Retryable err), st))"
| "layer_loop st (e # es) ending =
     (case entry_step st e of
        (Some err, st') \<Rightarrow> (Some err, st')
      | (None, st') \<Rightarrow> layer_loop st' es ending)"

section \<open>Package \<open>docker\<close>: the registry\<close>

text \<open>
  The HTTP client, the JSON decoder and the gzip and tar readers are outside the repository.
  A request is answered by the registry, a function of the requests made before and of the
  request: the call fails (\<open>DoError\<close>) or gives a status and a body. Of the body the model
  holds what the code gets from it: an error of reading or decoding it, or its decoded
  content. For a blob the content is the stream of tar entries, and \<open>tee\<close>, the raw bytes of the
  body that have passed through the \<open>TeeReader\<close> into the hasher when the loop over the entries
  ends.
\<close>

datatype 'a http_result = DoError error | Resp int "error + 'a"

record request =
  url :: string
  headers :: "(string \<times> string) list"

record token_body =
  Token :: string
  AccessToken :: string

record blob =
  tee :: bytes
  entries :: "entry list"
  ending :: "error option"

record registry =
  auth_srv :: "request list \<Rightarrow> request \<Rightarrow> token_body http_result"
  manifest_srv :: "request list \<Rightarrow> request \<Rightarrow> string list http_result"
  blob_srv :: "request list \<Rightarrow> request \<Rightarrow> blob http_result"

record dworld =
  root_fs :: filesys
  requests :: "request list"

definition hexdigit :: "nat \<Rightarrow> char" where
  "hexdigit n = ''0123456789abcdef'' ! n"

definition EncodeToString :: "bytes \<Rightarrow> string" where
  "EncodeToString bs =
     concat (map (\<lambda>b. [hexdigit (of_char b div 16), hexdigit (of_char b mod 16)]) bs)"

definition authorize :: "registry \<Rightarrow> dworld \<Rightarrow> string \<Rightarrow> (error + string) \<times> dworld" where
  "authorize reg w imageName =
     (let req = \<lparr>url = ''https://auth.docker.io/token?service=registry.docker.io&scope=repository:library/''
                        @ imageName @ '':pull'',
                 headers = []\<rparr>;
          w' = w\<lparr>requests := requests w @ [req]\<rparr> in
      case auth_srv reg (requests w) req of
        DoError err \<Rightarrow> (Inl (Retryable err), w')
      | Resp status b \<Rightarrow>
          (if status \<noteq> 200
           then (Inl (Retryable (Msg (''unexpected response status: '' @ decimal (nat status)))), w')
           else
             (case b of
                Inl err \<Rightarrow> (Inl (Retryable err), w')
              | Inr data \<Rightarrow>
                  (if Token data \<noteq> [] then (Inr (Token data), w')
                   else if AccessToken data \<noteq> [] then (Inr (AccessToken data), w')
                   else (Inl (Retryable (Msg ''no token in response'')), w')))))"

definition layers :: "registry \<Rightarrow> dworld \<Rightarrow> string \<Rightarrow> string \<Rightarrow> string \<Rightarrow> (error + string list) \<times> dworld" where
  "layers reg w token img tag =
     (let req = \<lparr>url = ''https://registry-1.docker.io/v2/library/'' @ img @ ''/manifests/'' @ tag,
                 headers = [(''Accept'', ''application/vnd.docker.distribution.manifest.v2+json''),
                            (''Authorization'', ''Bearer '' @ token)]\<rparr>;
          w' = w\<lparr>requests := requests w @ [req]\<rparr> in
      case manifest_srv reg (requests w) req of
        DoError err \<Rightarrow> (Inl (Retryable err), w')
      | Resp status b \<Rightarrow>
          (if status \<noteq> 200
           then (Inl (Retryable (Msg (''unexpected response status: '' @ decimal (nat status)))), w')
           else
             (case b of
                Inl err \<Rightarrow> (Inl (Retryable err), w')
              | Inr digests \<Rightarrow> (Inr digests, w'))))"

text \<open>
  \<open>increment\<close>. \<open>sha256\<close> is the hash function of \<open>crypto/sha256\<close>, a parameter. The body error of
  a blob is the error of \<open>gzip.NewReader\<close>.
\<close>

definition blob_request :: "string \<Rightarrow> string \<Rightarrow> string \<Rightarrow> request" where
  "blob_request token imageName digest =
     \<lparr>url = ''https://registry-1.docker.io/v2/library/'' @ imageName @ ''/blobs/'' @ digest,
      headers = [(''Authorization'', ''Bearer '' @ token)]\<rparr>"

definition increment :: "(bytes \<Rightarrow> bytes) \<Rightarrow> registry \<Rightarrow> dworld \<Rightarrow> string \<Rightarrow> string \<Rightarrow> string
    \<Rightarrow> (error + unit) \<times> dworld" where
  "increment sha256 reg w token imageName digest =
     (let req = blob_request token imageName digest;
          w' = w\<lparr>requests := requests w @ [req]\<rparr> in
      case blob_srv reg (requests w) req of
        DoError err \<Rightarrow> (Inl (Retryable err), w')
      | Resp status b \<Rightarrow>
          (if status \<noteq> 200
           then (Inl (Retryable (Msg (''unexpected response status: '' @ decimal (nat status)))), w')
           else
             (case b of
                Inl err \<Rightarrow> (Inl (Retryable err), w')
              | Inr layer \<Rightarrow>
                  (case layer_loop \<lparr>del = {}, added = {}, disk = root_fs w'\<rparr>
                          (entries layer) (ending layer) of
                     (Some err, st) \<Rightarrow> (Inl err, w'\<lparr>root_fs := disk st\<rparr>)
                   | (None, st) \<Rightarrow>
                       (let computedDigest = ''sha256:'' @ EncodeToString (sha256 (tee layer)) in
                        if computedDigest \<noteq> digest
                        then (Inl (Retryable (Msg (''digest doesn'' @ [CHR 0x27] @ ''t match, expected: ''
                                      @ digest @ '', got: '' @ computedDigest))),
                              w'\<lparr>root_fs := disk st\<rparr>)
                        else (Inr (), w'\<lparr>root_fs := disk st\<rparr>))))))"

text \<open>
  Modelled from the spec: package \<open>retry\<close> (\<open>retry.Do\<close>, \<open>retry.Retryable\<close>) is not among the
  sources. The specification (section 4.A): the operation returns success, a non-retryable
  error (abort immediately) or a retryable error (retry up to \<open>max_attempts\<close> times; the final
  attempt's error surfaces). Retryability is a property of the error: \<open>Retryable e\<close>. The delay
  between two attempts is not modelled. The specification does not say what zero attempts
  give (here: an error, without a call of the operation); the callers pass 10.
\<close>

fun retry_Do :: "nat \<Rightarrow> ('s \<Rightarrow> (error + 'a) \<times> 's) \<Rightarrow> 's \<Rightarrow> (error + 'a) \<times> 's" where
  "retry_Do 0 f s = (Inl (Msg ''no attempt''), s)"
| "retry_Do (Suc n) f s =
     (case f s of
        (Inl (Retryable err), s') \<Rightarrow>
          (if n = 0 then (Inl (Retryable err), s') else retry_Do n f s')
      | (r, s') \<Rightarrow> (r, s'))"

fun apply_layers :: "(bytes \<Rightarrow> bytes) \<Rightarrow> registry \<Rightarrow> string \<Rightarrow> string \<Rightarrow> string list \<Rightarrow> dworld
    \<Rightarrow> error option \<times> dworld" where
  "apply_layers sha256 reg token img [] w = (None, w)"
| "apply_layers sha256 reg token img (digest # l) w =
     (case retry_Do 10 (\<lambda>w. increment sha256 reg w token img digest) w of
        (Inl err, w') \<Rightarrow> (Some err, w')
      | (Inr u, w') \<Rightarrow> apply_layers sha256 reg token img l w')"

definition Apply :: "(bytes \<Rightarrow> bytes) \<Rightarrow> registry \<Rightarrow> dworld \<Rightarrow> string \<Rightarrow> string \<Rightarrow> error option \<times> dworld" where
  "Apply sha256 reg w img tag =
     (case retry_Do 10 (\<lambda>w. authorize reg w img) w of
        (Inl err, w1) \<Rightarrow> (Some err, w1)
      | (Inr token, w1) \<Rightarrow>
          (case retry_Do 10 (\<lambda>w. layers reg w token img tag) w1 of
             (Inl err, w2) \<Rightarrow> (Some err, w2)
           | (Inr l, w2) \<Rightarrow> apply_layers sha256 reg token img l w2))"

section \<open>Examples\<close>

text \<open>An empty image root, the state of the loop at the start of a layer, and a tar entry.\<close>

definition empty_disk :: filesys where
  "empty_disk = \<lparr>names = [], inodes = (\<lambda>i. root_inode), next_ino = 1, oplog = []\<rparr>"

definition fresh_layer :: layer_state where
  "fresh_layer = \<lparr>del = {}, added = {}, disk = empty_disk\<rparr>"

definition tar_entry :: "string \<Rightarrow> char \<Rightarrow> 64 word \<Rightarrow> bytes \<Rightarrow> entry" where
  "tar_entry n t m b =
     \<lparr>header = Some \<lparr>Name = n, Typeflag = t, Linkname = [], Uid = 0, Gid = 0, Mode = m\<rparr>,
      body = b, body_err = None\<rparr>"

section \<open>Properties of the log transmitter\<close>

lemma Send_accepted:
  "accepts c (calls c) \<Longrightarrow>
   Send c m = (None, c\<lparr>calls := Suc (calls c), outbox := outbox c @ [m]\<rparr>)"
  by (simp add: Send_def)

lemma Write_below:
  "length (buf lt) + length d < 100 \<Longrightarrow>
   Write lt c d = (lt\<lparr>buf := buf lt @ d\<rparr>, c, length d, None)"
  by (simp add: Write_def)

lemma Write_reach:
  "100 \<le> length (buf lt) + length d \<Longrightarrow> accepts c (calls c) \<Longrightarrow>
   Write lt c d =
     (lt\<lparr>buf := []\<rparr>,
      c\<lparr>calls := Suc (calls c), outbox := outbox c @ [Log (stream lt) (buf lt @ d)]\<rparr>,
      length d, None)"
  by (simp add: Write_def Send_accepted Let_def)

lemma Flush_residual:
  "buf lt \<noteq> [] \<Longrightarrow> accepts c (calls c) \<Longrightarrow>
   Flush lt c =
     (lt\<lparr>buf := []\<rparr>,
      c\<lparr>calls := Suc (calls c), outbox := outbox c @ [Log (stream lt) (buf lt)]\<rparr>, None)"
  by (simp add: Flush_def Send_accepted)

lemma Flush_empty: "buf lt = [] \<Longrightarrow> Flush lt c = (lt, c, None)"
  by (simp add: Flush_def)

lemma Writes_stream:
  "\<forall>k. accepts c k \<Longrightarrow> Writes lt c ds = (lt', c') \<Longrightarrow>
   (\<forall>k. accepts c' k) \<and> stream lt' = stream lt \<and>
   (\<exists>new. outbox c' = outbox c @ new \<and> log_text new @ buf lt' = buf lt @ concat ds \<and>
      length new \<le> length ds) \<and>
   (length (buf lt) < 100 \<longrightarrow> length (buf lt') < 100)"
proof (induction ds arbitrary: lt c)
  case Nil
  then show ?case by simp
next
  case (Cons d ds)
  show ?case
  proof (cases "length (buf lt) + length d < 100")
    case True
    with Cons.prems have W: "Writes (lt\<lparr>buf := buf lt @ d\<rparr>) c ds = (lt', c')"
      by (simp add: Write_below)
    from Cons.IH[OF Cons.prems(1) W] show ?thesis using True by auto
  next
    case False
    let ?c = "c\<lparr>calls := Suc (calls c), outbox := outbox c @ [Log (stream lt) (buf lt @ d)]\<rparr>"
    from False Cons.prems have W: "Writes (lt\<lparr>buf := []\<rparr>) ?c ds = (lt', c')"
      by (simp add: Write_reach)
    have A: "\<forall>k. accepts ?c k" using Cons.prems(1) by simp
    from Cons.IH[OF A W] obtain new where
      n: "outbox c' = outbox ?c @ new" "log_text new @ buf lt' = concat ds"
         "length new \<le> length ds"
      and r: "(\<forall>k. accepts c' k)" "stream lt' = stream lt" "length (buf lt') < 100"
      by auto
    have "outbox c' = outbox c @ (Log (stream lt) (buf lt @ d) # new)" using n by simp
    moreover have "log_text (Log (stream lt) (buf lt @ d) # new) @ buf lt' = buf lt @ concat (d # ds)"
      using n by simp
    moreover have "length (Log (stream lt) (buf lt @ d) # new) \<le> length (d # ds)"
      using n by simp
    ultimately show ?thesis using r by blast
  qed
qed

text \<open>
  Claim C7. While the peer accepts the frames: a \<open>Write\<close> that leaves the accumulated length
  below 100 only appends the data to the buffer and sends nothing; a \<open>Write\<close> that brings the
  accumulated length to 100 or more sends exactly one \<open>Log\<close> frame, whose text is the buffered
  bytes followed by the new data, and empties the buffer; \<open>Flush\<close> sends one \<open>Log\<close> frame with
  the residual buffer, and nothing when the buffer is empty. For any sequence of \<open>Write\<close> calls
  the text of the frames sent, followed by the bytes still buffered, is the old buffer followed
  by the data written, in order, and a buffer shorter than 100 bytes stays shorter than 100.
\<close>

theorem logTransmitter_buffering:
  assumes "\<forall>k. accepts c k"
  shows "(length (buf lt) + length d < 100 \<longrightarrow>
            Write lt c d = (lt\<lparr>buf := buf lt @ d\<rparr>, c, length d, None))
       \<and> (100 \<le> length (buf lt) + length d \<longrightarrow>
            Write lt c d =
              (lt\<lparr>buf := []\<rparr>,
               c\<lparr>calls := Suc (calls c),
                 outbox := outbox c @ [Log (stream lt) (buf lt @ d)]\<rparr>,
               length d, None))
       \<and> (buf lt \<noteq> [] \<longrightarrow>
            Flush lt c =
              (lt\<lparr>buf := []\<rparr>,
               c\<lparr>calls := Suc (calls c), outbox := outbox c @ [Log (stream lt) (buf lt)]\<rparr>,
               None))
       \<and> (buf lt = [] \<longrightarrow> Flush lt c = (lt, c, None))
       \<and> (\<exists>new. outbox (snd (Writes lt c ds)) = outbox c @ new
             \<and> log_text new @ buf (fst (Writes lt c ds)) = buf lt @ concat ds
             \<and> length new \<le> length ds)
       \<and> (length (buf lt) < 100 \<longrightarrow> length (buf (fst (Writes lt c ds))) < 100)"
proof -
  have a: "accepts c (calls c)" using assms by simp
  obtain lt' c' where W: "Writes lt c ds = (lt', c')" by (cases "Writes lt c ds")
  note S = Writes_stream[OF assms W]
  show ?thesis
    using a S by (simp add: Write_below Write_reach Flush_residual Flush_empty W)
qed

theorem logTransmitter_buffering_witness:
  "Write \<lparr>stream = StreamOut, buf = replicate 98 CHR ''a''\<rparr>
         \<lparr>accepts = (\<lambda>k. True), calls = 0, outbox = []\<rparr> ''xyz''
     = (\<lparr>stream = StreamOut, buf = []\<rparr>,
        \<lparr>accepts = (\<lambda>k. True), calls = Suc 0,
         outbox = [Log StreamOut (replicate 98 CHR ''a'' @ ''xyz'')]\<rparr>, 3, None)
   \<and> Flush \<lparr>stream = StreamOut, buf = replicate 98 CHR ''a''\<rparr>
         \<lparr>accepts = (\<lambda>k. True), calls = 0, outbox = []\<rparr>
     = (\<lparr>stream = StreamOut, buf = []\<rparr>,
        \<lparr>accepts = (\<lambda>k. True), calls = Suc 0,
         outbox = [Log StreamOut (replicate 98 CHR ''a'')]\<rparr>, None)"
  using logTransmitter_buffering
          [of "\<lparr>accepts = (\<lambda>k. True), calls = 0, outbox = []\<rparr>"
              "\<lparr>stream = StreamOut, buf = replicate 98 CHR ''a''\<rparr>" "''xyz''" "[]"]
  by simp

section \<open>Properties of the paths of the mounts\<close>

lemma splitSep_nonempty: "splitSep s \<noteq> []"
  by (induction s) (auto split: list.splits)

lemma splitSep_no_sep: "e \<in> set (splitSep s) \<Longrightarrow> CHR ''/'' \<notin> set e"
proof (induction s arbitrary: e)
  case Nil
  then show ?case by simp
next
  case (Cons c cs)
  then show ?case
    by (cases "splitSep cs") (auto split: if_splits)
qed

lemma splitSep_dot_slash: "splitSep (''./'' @ c) = ''.'' # splitSep c"
  using splitSep_nonempty[of c] by (cases "splitSep c") simp_all

lemma cleanElems_elems:
  "list_all clean_elem out \<Longrightarrow> list_all (\<lambda>e. CHR ''/'' \<notin> set e) es \<Longrightarrow>
   list_all clean_elem (cleanElems r out es)"
proof (induction es arbitrary: out)
  case Nil
  then show ?case by simp
next
  case (Cons e es)
  have b: "list_all clean_elem (butlast out)"
    using Cons.prems(1) by (auto simp: list_all_iff dest: in_set_butlastD)
  have d: "list_all clean_elem (out @ [''..''])"
    using Cons.prems(1) by (auto simp: list_all_iff clean_elem_def)
  have e: "e \<noteq> [] \<Longrightarrow> list_all clean_elem (out @ [e])"
    using Cons.prems by (auto simp: list_all_iff clean_elem_def)
  have es: "list_all (\<lambda>e. CHR ''/'' \<notin> set e) es" using Cons.prems(2) by simp
  show ?case
    using Cons.IH[OF b es] Cons.IH[OF d es] Cons.IH[OF e es] Cons.IH[OF Cons.prems(1) es]
    by (cases r) auto
qed

lemma rooted_joinSep:
  assumes "out \<noteq> []" "list_all clean_elem out"
  shows "\<not> rooted (joinSep out)"
proof -
  from assms obtain x xs where o: "out = x # xs" by (cases out) auto
  with assms(2) obtain c cs where x: "x = c # cs" "c \<noteq> CHR ''/''"
    by (cases x) (auto simp: clean_elem_def)
  show ?thesis using o x by (cases xs) (simp_all add: rooted_def)
qed

lemma Join_dot: "Join [''.'', c] = Clean (''./'' @ c)"
  by (simp add: Join_def)

lemma Join_dot_relative: "\<not> rooted (Join [''.'', c])"
proof -
  let ?out = "cleanElems False [] (splitSep (''./'' @ c))"
  have "list_all clean_elem ?out"
    by (rule cleanElems_elems) (auto simp: list_all_iff dest: splitSep_no_sep)
  then have "?out \<noteq> [] \<Longrightarrow> \<not> rooted (joinSep ?out)" by (rule rooted_joinSep[rotated])
  moreover have "\<not> rooted ''.''" by (simp add: rooted_def)
  ultimately show ?thesis
    by (auto simp: Join_dot Clean_def Let_def rooted_def)
qed


lemma cleanElems_plain:
  "list_all plain_elem out \<Longrightarrow> list_all (\<lambda>e. CHR ''/'' \<notin> set e \<and> e \<noteq> ''..'') es \<Longrightarrow>
   list_all plain_elem (cleanElems r out es)"
proof (induction es arbitrary: out)
  case Nil
  then show ?case by simp
next
  case (Cons e es)
  have e: "e \<noteq> [] \<Longrightarrow> e \<noteq> ''.'' \<Longrightarrow> list_all plain_elem (out @ [e])"
    using Cons.prems by (auto simp: list_all_iff plain_elem_def)
  have es: "list_all (\<lambda>e. CHR ''/'' \<notin> set e \<and> e \<noteq> ''..'') es" using Cons.prems(2) by simp
  have ne: "e \<noteq> ''..''" using Cons.prems(2) by simp
  show ?case
    using Cons.IH[OF e es] Cons.IH[OF Cons.prems(1) es] ne by auto
qed

lemma cleanElems_id: "list_all plain_elem es \<Longrightarrow> cleanElems r acc es = acc @ es"
  by (induction es arbitrary: acc) (auto simp: plain_elem_def)

lemma splitSep_elem: "CHR ''/'' \<notin> set x \<Longrightarrow> splitSep x = [x]"
  by (induction x) auto

lemma splitSep_append_sep:
  "CHR ''/'' \<notin> set x \<Longrightarrow> splitSep (x @ CHR ''/'' # s) = x # splitSep s"
  by (induction x) auto

lemma splitSep_joinSep:
  "out \<noteq> [] \<Longrightarrow> list_all (\<lambda>e. CHR ''/'' \<notin> set e) out \<Longrightarrow> splitSep (joinSep out) = out"
proof (induction out rule: joinSep.induct)
  case 1
  then show ?case by simp
next
  case (2 x)
  then show ?case by (simp add: splitSep_elem)
next
  case (3 x y ys)
  then show ?case by (simp add: splitSep_append_sep)
qed

lemma joinSep_nonempty: "out \<noteq> [] \<Longrightarrow> list_all plain_elem out \<Longrightarrow> joinSep out \<noteq> []"
  by (cases out rule: joinSep.cases) (auto simp: plain_elem_def)

lemma plain_clean: "plain_elem x \<Longrightarrow> clean_elem x"
  by (simp add: plain_elem_def clean_elem_def)

lemma Join_dot_confined:
  assumes "''..'' \<notin> set (splitSep c)"
  shows "confined (Join [''.'', c])"
proof -
  define out where "out = cleanElems False [] (splitSep (''./'' @ c))"
  have "list_all (\<lambda>e. CHR ''/'' \<notin> set e \<and> e \<noteq> ''..'') (splitSep (''./'' @ c))"
    using assms by (auto simp: list_all_iff splitSep_dot_slash dest: splitSep_no_sep)
  then have p: "list_all plain_elem out" unfolding out_def by (intro cleanElems_plain) simp_all
  have J: "Join [''.'', c] = (if out = [] then ''.'' else joinSep out)"
    unfolding out_def by (simp only: Join_dot Clean_def Let_def) (simp add: rooted_def)
  show ?thesis
  proof (cases "out = []")
    case True
    then show ?thesis by (simp add: J confined_def rooted_def Clean_def)
  next
    case False
    then have j: "Join [''.'', c] = joinSep out" by (simp add: J)
    have c: "list_all clean_elem out" using p by (auto simp: list_all_iff plain_clean)
    have nr: "\<not> rooted (joinSep out)" using rooted_joinSep[OF False c] .
    have ne: "joinSep out \<noteq> []" using joinSep_nonempty[OF False p] .
    have sp: "splitSep (joinSep out) = out"
      using p by (intro splitSep_joinSep[OF False]) (auto simp: list_all_iff plain_elem_def)
    have cl: "Clean (joinSep out) = joinSep out"
      using nr ne False by (simp add: Clean_def sp cleanElems_id[OF p])
    from False p have "hd out \<noteq> ''..''" by (cases out) (auto simp: plain_elem_def)
    then show ?thesis using nr by (simp add: confined_def j cl sp)
  qed
qed

text \<open>
  Claim C1. \<open>applyMounts\<close> passes \<open>filepath.Join(".", m.Container)\<close> to \<open>MkdirAll\<close> and to the
  mount calls. That path is always relative (\<open>Join_dot_relative\<close>) and it stays inside the new
  root when the container path has no \<open>..\<close> element (\<open>Join_dot_confined\<close>). The claim fails
  for a container path with \<open>..\<close> elements: \<open>Join\<close> keeps the \<open>..\<close> that lead a relative path.
  For the container path \<open>../escape\<close> the directory is created and the host directory is
  mounted at \<open>../escape\<close>, which is not inside the new root; the absolute path \<open>/../escape\<close>
  is rewritten to the same \<open>../escape\<close>.
\<close>

theorem applyMounts_escapes_new_root:
  "applyMounts (\<lambda>tr op. None) [\<lparr>Host = ''/tmp'', Container = ''../escape'', Writable = True\<rparr>] []
     = (None, [SysMkdirAll ''../escape'' perm_700,
               SysMount ''/tmp'' ''../escape'' [] (MS_BIND OR MS_PRIVATE) []])
   \<and> \<not> confined ''../escape''
   \<and> Join [''.'', ''/../escape''] = ''../escape''"
  by code_simp

section \<open>Properties of the sandbox builder\<close>




























section \<open>Properties of the dispatch loop\<close>

text \<open>
  Claim C8. When the first result of \<open>Receive\<close> is not a \<open>Config\<close> frame (another message, or a
  failure of \<open>Receive\<close>), \<open>Run\<close> returns an error and leaves the world as it was: no system
  call of the sandbox builder has been made, nothing has been sent and no request has been
  dispatched.
\<close>

theorem first_frame_must_be_Config:
  assumes "\<forall>cfg. r \<noteq> Frame (Config cfg)"
  shows "\<exists>e. Run ev (r # rest) w = (Returned (Some e), w)"
proof (cases r)
  case (Frame msg)
  with assms show ?thesis by (cases msg) (simp_all add: Run_def server_def)
next
  case (RecvFail err ctxErr)
  then show ?thesis by (simp add: Run_def server_def)
qed

theorem first_frame_must_be_Config_witness:
  "Run \<lparr>kernel = (\<lambda>tr op. None), links_order = links,
         shell = (\<lambda>n c. ([], None)), copy = (\<lambda>n s d. None), dockerApply = (\<lambda>n i t. None)\<rparr>
       [Frame (Execute ''ls''), RecvFail EOF None]
       \<lparr>wire = \<lparr>accepts = (\<lambda>k. True), calls = 0, outbox = []\<rparr>, ops = [], handled = []\<rparr>
   = (Returned (Some (Msg ''expected Config message but got: wire.Execute'')),
      \<lparr>wire = \<lparr>accepts = (\<lambda>k. True), calls = 0, outbox = []\<rparr>, ops = [], handled = []\<rparr>)"
  using first_frame_must_be_Config
          [of "Frame (Execute ''ls'')"
              "\<lparr>kernel = (\<lambda>tr op. None), links_order = links,
                shell = (\<lambda>n c. ([], None)), copy = (\<lambda>n s d. None),
                dockerApply = (\<lambda>n i t. None)\<rparr>"
              "[RecvFail EOF None]"
              "\<lparr>wire = \<lparr>accepts = (\<lambda>k. True), calls = 0, outbox = []\<rparr>, ops = [],
                handled = []\<rparr>"]
  by (simp add: Run_def server_def)









section \<open>Properties of the layer applier: ownership and mode\<close>

lemma and_bit64: "(w :: 64 word) AND push_bit n 1 \<noteq> 0 \<longleftrightarrow> bit w n"
  by (simp add: bit_iff_and_push_bit_not_eq_0)

lemma and_bit32: "(w :: 32 word) AND push_bit n 1 \<noteq> 0 \<longleftrightarrow> bit w n"
  by (simp add: bit_iff_and_push_bit_not_eq_0)

lemma consts64: "c_ISUID = push_bit 11 1" "c_ISGID = push_bit 10 1" "c_ISVTX = push_bit 9 1"
  by (simp_all add: c_ISUID_def c_ISGID_def c_ISVTX_def)

lemma consts32: "S_ISUID = push_bit 11 1" "S_ISGID = push_bit 10 1" "S_ISVTX = push_bit 9 1"
  "perm_777 = mask 9"
  by (simp_all add: S_ISUID_def S_ISGID_def S_ISVTX_def perm_777_def mask_eq_exp_minus_1)

lemma bit_or_flag:
  "bit (if c then (x :: 32 word) OR push_bit m 1 else x) n \<longleftrightarrow> bit x n \<or> (c \<and> n = m \<and> n < 32)"
  by (auto simp: bit_simps)

lemma syscallMode_bits:
  "bit (syscallMode i) n \<longleftrightarrow>
     (n < 9 \<and> bit i n) \<or> (n = 11 \<and> bit i 23) \<or> (n = 10 \<and> bit i 22) \<or> (n = 9 \<and> bit i 20)"
  unfolding syscallMode_def Let_def ModeSetuid_def ModeSetgid_def ModeSticky_def consts32 and_bit32
    bit_or_flag bit_and_iff bit_mask_iff
  by auto

lemma bit_ucast_64_32: "bit (ucast (w :: 64 word) :: 32 word) n \<longleftrightarrow> n < 32 \<and> bit w n"
  by (auto simp: bit_simps)

lemma mode_perm_bits:
  "bit (mode_perm h) n \<longleftrightarrow>
     (n < 9 \<and> bit (Mode h) n) \<or> (n = 23 \<and> bit (Mode h) 11) \<or> (n = 22 \<and> bit (Mode h) 10)
       \<or> (n = 20 \<and> bit (Mode h) 9)"
  unfolding mode_perm_def Let_def ModeSetuid_def ModeSetgid_def ModeSticky_def consts32 consts64
    and_bit64 bit_or_flag bit_and_iff bit_mask_iff bit_ucast_64_32
  by auto

lemma syscallMode_type_flag_gen:
  assumes "9 \<le> m" "m \<noteq> 20" "m \<noteq> 22" "m \<noteq> 23"
  shows "syscallMode (x OR push_bit m 1) = syscallMode x"
proof (rule bit_word_eqI)
  fix n
  have "bit (x OR push_bit m 1) k = bit x k" if "k < 9 \<or> k = 20 \<or> k = 22 \<or> k = 23" for k
    using that assms by (auto simp: bit_simps)
  then show "bit (syscallMode (x OR push_bit m 1)) n = bit (syscallMode x) n"
    by (simp only: syscallMode_bits) auto
qed


lemma syscallMode_type_flag:
  "syscallMode (x OR ModeDir) = syscallMode x"
  "syscallMode (x OR ModeSymlink) = syscallMode x"
  "syscallMode (x OR ModeDevice) = syscallMode x"
  "syscallMode (x OR ModeNamedPipe) = syscallMode x"
  "syscallMode (x OR ModeSocket) = syscallMode x"
  "syscallMode (x OR ModeCharDevice) = syscallMode x"
  unfolding ModeDir_def ModeSymlink_def ModeDevice_def ModeNamedPipe_def ModeSocket_def
    ModeCharDevice_def
  by (rule syscallMode_type_flag_gen; simp)+

lemma syscallMode_if:
  "syscallMode (if c then a else b) = (if c then syscallMode a else syscallMode b)"
  by simp

lemma syscallMode_mode_type: "syscallMode (mode_type h m) = syscallMode m"
  unfolding mode_type_def Let_def
  by (simp only: or.assoc[symmetric] syscallMode_if syscallMode_type_flag if_cancel)

lemma chmod_mode_bits: "syscallMode (FileInfo_Mode h) = ucast (Mode h) AND 0xFFF"
proof -
  have m: "(0xFFF :: 32 word) = mask 12" by (simp add: mask_eq_exp_minus_1)
  have "syscallMode (mode_perm h) = ucast (Mode h) AND mask 12"
  proof (rule bit_word_eqI)
    fix n :: nat
    have "n < 12 \<longleftrightarrow> n < 9 \<or> n = 9 \<or> n = 10 \<or> n = 11" by auto
    then show "bit (syscallMode (mode_perm h)) n = bit (ucast (Mode h) AND mask 12 :: 32 word) n"
      by (simp only: syscallMode_bits mode_perm_bits bit_and_iff bit_mask_iff bit_ucast_64_32) auto
  qed
  then show ?thesis by (simp only: m FileInfo_Mode_def syscallMode_mode_type)
qed

lemma oplog_create: "oplog (create fs p n) = oplog fs"
  by (simp add: create_def)

lemma oplog_mkdirs: "mkdirs fs m cur xs = (r, fs') \<Longrightarrow> oplog fs' = oplog fs"
  by (induction fs m cur xs rule: mkdirs.induct)
     (auto simp: oplog_create split: option.splits content.splits)

lemma os_RemoveAll_log: "os_RemoveAll fs s = (r, fs') \<Longrightarrow> oplog fs' = oplog fs @ [OpRemoveAll s]"
  by (auto simp: os_RemoveAll_def Let_def logop_def split: if_splits)

lemma os_RemoveAll_not_ENOENT: "os_RemoveAll fs s = (Some err, fs') \<Longrightarrow> \<not> IsNotExist err"
  by (auto simp: os_RemoveAll_def Let_def IsNotExist_def split: if_splits)

lemma os_MkdirAll_log:
  "os_MkdirAll fs s m = (r, fs') \<Longrightarrow> oplog fs' = oplog fs @ [OpMkdirAll s m]"
  by (auto simp: os_MkdirAll_def Let_def logop_def split: if_splits dest!: oplog_mkdirs)

lemma os_OpenFile_log:
  "os_OpenFile fs s fl m = (r, fs') \<Longrightarrow> oplog fs' = oplog fs @ [OpOpenFile s fl m]"
  by (auto simp: os_OpenFile_def Let_def logop_def oplog_create
      split: if_splits option.splits content.splits)

lemma os_Copy_log: "oplog (os_Copy fs s i bs) = oplog fs @ [OpCopy s bs]"
  by (simp add: os_Copy_def Let_def logop_def)

lemma os_Close_log: "oplog (os_Close fs s) = oplog fs @ [OpClose s]"
  by (simp add: os_Close_def logop_def)

lemma os_Symlink_log:
  "os_Symlink fs a b = (r, fs') \<Longrightarrow> oplog fs' = oplog fs @ [OpSymlink a b]"
  by (auto simp: os_Symlink_def Let_def logop_def oplog_create split: if_splits option.splits)

lemma os_Link_log:
  "os_Link fs a b = (r, fs') \<Longrightarrow> oplog fs' = oplog fs @ [OpLink a b]"
  by (auto simp: os_Link_def Let_def logop_def split: if_splits option.splits)

lemma os_Lchown_log:
  "os_Lchown fs s u g = (r, fs') \<Longrightarrow> oplog fs' = oplog fs @ [OpLchown s u g]"
  by (auto simp: os_Lchown_def Let_def logop_def split: if_splits option.splits)

lemma os_Chmod_log:
  "os_Chmod fs s m = (r, fs') \<Longrightarrow> oplog fs' = oplog fs @ [OpChmod s m]"
  by (auto simp: os_Chmod_def Let_def logop_def split: if_splits option.splits content.splits)

lemma link_entry_log:
  "link_entry h fs = (r, fs') \<Longrightarrow> oplog fs' = oplog fs @ [OpLink (Linkname h) (Name h)]"
  by (auto simp: link_entry_def split: prod.splits option.splits dest: os_Link_log)

lemma TypeSymlink_distinct:
  "TypeSymlink \<noteq> TypeDir" "TypeSymlink \<noteq> TypeReg" "TypeSymlink \<noteq> TypeLink"
  "TypeDir \<noteq> TypeSymlink" "TypeReg \<noteq> TypeSymlink" "TypeLink \<noteq> TypeSymlink"
  by (simp_all add: TypeSymlink_def TypeDir_def TypeReg_def TypeLink_def)

lemma create_entry_log:
  assumes "create_entry h mode e fs = (r, fs')"
  shows "\<exists>steps. oplog fs' = oplog fs @ steps \<and>
           (Typeflag h = TypeSymlink \<longrightarrow> steps = [OpSymlink (Linkname h) (Name h)]) \<and>
           (\<forall>s u g. OpLchown s u g \<notin> set steps) \<and> (\<forall>s m. OpChmod s m \<notin> set steps)"
proof -
  consider (dir) "Typeflag h = TypeDir" | (reg) "Typeflag h \<noteq> TypeDir" "Typeflag h = TypeReg"
    | (sym) "Typeflag h = TypeSymlink" | (lnk) "Typeflag h \<noteq> TypeDir" "Typeflag h \<noteq> TypeReg" "Typeflag h \<noteq> TypeSymlink" "Typeflag h = TypeLink"
    | (other) "Typeflag h \<noteq> TypeDir" "Typeflag h \<noteq> TypeReg" "Typeflag h \<noteq> TypeSymlink" "Typeflag h \<noteq> TypeLink"
    by blast
  then show ?thesis
  proof cases
    case dir
    with assms show ?thesis
      by (auto simp: create_entry_def TypeSymlink_distinct split: prod.splits option.splits
          dest!: os_MkdirAll_log)
  next
    case reg
    with assms show ?thesis
      by (auto simp: create_entry_def TypeSymlink_distinct Let_def os_Copy_log os_Close_log
          split: prod.splits option.splits sum.splits dest!: os_OpenFile_log)
  next
    case sym
    with assms show ?thesis
      by (auto simp: create_entry_def TypeSymlink_distinct split: prod.splits option.splits
          dest!: os_Symlink_log)
  next
    case lnk
    with assms show ?thesis
      by (auto simp: create_entry_def os_Close_log
          split: prod.splits option.splits sum.splits if_splits
          dest!: os_OpenFile_log link_entry_log)
  next
    case other
    with assms show ?thesis by (simp add: create_entry_def)
  qed
qed

lemma not_marker:
  assumes "\<not> HasPrefix b ''.wh.''"
  shows "b \<noteq> ''.wh..wh..plnk''" "b \<noteq> ''.wh..wh..opq''"
  using assms by (auto simp: HasPrefix_def)

lemma entry_step_created:
  assumes "header e = Some h" "\<not> HasPrefix (Base (Name h)) ''.wh.''" "Name h \<notin> del st"
    and "entry_step st e = (None, st')"
  shows "\<exists>fs1 fs2 fs3.
           os_RemoveAll (disk st) (Name h) = (None, fs1)
         \<and> create_entry h (FileInfo_Mode h) e fs1 = (None, fs2)
         \<and> os_Lchown fs2 (Name h) (Uid h) (Gid h) = (None, fs3)
         \<and> (if Typeflag h \<noteq> TypeSymlink
            then os_Chmod fs3 (Name h) (FileInfo_Mode h) = (None, disk st') else disk st' = fs3)
         \<and> added st' = insert (Name h) (added st) \<and> del st' = del st"
proof -
  obtain r1 fs1 where R: "os_RemoveAll (disk st) (Name h) = (r1, fs1)"
    by (cases "os_RemoveAll (disk st) (Name h)")
  have r1: "r1 = None"
  proof (cases r1)
    case (Some err)
    with R have "\<not> IsNotExist err" by (simp add: os_RemoveAll_not_ENOENT)
    with assms R Some show ?thesis by (simp add: entry_step_def)
  qed simp
  with assms R have C: "classify (st\<lparr>disk := fs1\<rparr>) h e = (None, st')"
    by (simp add: entry_step_def)
  obtain r2 fs2 where E: "create_entry h (FileInfo_Mode h) e fs1 = (r2, fs2)"
    by (cases "create_entry h (FileInfo_Mode h) e fs1")
  note nm = not_marker[OF assms(2)]
  from C E assms(2,3) nm have r2: "r2 = None"
    by (cases r2) (simp_all add: classify_def Let_def)
  with C E assms(2,3) nm have F: "finish_entry (st\<lparr>disk := fs1\<rparr>) h (FileInfo_Mode h) fs2 = (None, st')"
    by (simp add: classify_def Let_def)
  obtain r3 fs3 where L: "os_Lchown fs2 (Name h) (Uid h) (Gid h) = (r3, fs3)"
    by (cases "os_Lchown fs2 (Name h) (Uid h) (Gid h)")
  from F L have r3: "r3 = None" by (cases r3) (simp_all add: finish_entry_def Let_def)
  show ?thesis
  proof (cases "Typeflag h = TypeSymlink")
    case True
    with F L r3 R r1 E r2 show ?thesis by (auto simp: finish_entry_def Let_def)
  next
    case False
    obtain r4 fs4 where M: "os_Chmod fs3 (Name h) (FileInfo_Mode h) = (r4, fs4)"
      by (cases "os_Chmod fs3 (Name h) (FileInfo_Mode h)")
    from F L r3 M False have "r4 = None" by (cases r4) (simp_all add: finish_entry_def Let_def)
    with F L r3 M False R r1 E r2 show ?thesis by (auto simp: finish_entry_def Let_def)
  qed
qed


lemma os_Lchown_names: "os_Lchown fs s u g = (r, fs') \<Longrightarrow> names fs' = names fs"
  by (auto simp: os_Lchown_def Let_def logop_def split: if_splits option.splits)

lemma os_Lchown_owner:
  assumes "os_Lchown fs s u g = (None, fs')" "resolve s \<noteq> []"
  shows "\<exists>i. map_of (names fs') (resolve s) = Some i \<and> uid (inodes fs' i) = u \<and> gid (inodes fs' i) = g"
  using assms
  by (auto simp: os_Lchown_def Let_def logop_def split: if_splits option.splits)

lemma os_Chmod_perm:
  assumes "os_Chmod fs s m = (None, fs')" "resolve s \<noteq> []"
  shows "\<exists>i. map_of (names fs) (resolve s) = Some i \<and> names fs' = names fs
           \<and> inodes fs' = (inodes fs)(i := (inodes fs i)\<lparr>perm := syscallMode m\<rparr>)"
  using assms
  by (auto simp: os_Chmod_def Let_def logop_def split: if_splits option.splits content.splits)

lemma os_RemoveAll_nonroot:
  assumes "os_RemoveAll fs s = (None, fs')" "s \<noteq> []"
  shows "resolve s \<noteq> []"
  using assms by (auto simp: os_RemoveAll_def Let_def split: if_splits)

lemma os_Lchown_nonempty: "os_Lchown fs s u g = (None, fs') \<Longrightarrow> s \<noteq> []"
  by (auto simp: os_Lchown_def Let_def)

text \<open>
  Claim C3. For a tar entry that the layer applier creates (its name is no marker, it is not
  in \<open>del\<close>, and the turn of the loop returns no error): when the entry is no symbolic link, the
  calls made for it end with \<open>Lchown\<close> with the uid and gid of the header and then \<open>Chmod\<close> with
  the mode of the header, none of the calls before is a \<open>Chmod\<close> or an \<open>Lchown\<close>, and afterwards
  the file at the entry's path has the owner of the header and the mode bits of the header,
  setuid, setgid and sticky included (\<open>Mode AND 0o7777\<close>); when the entry is a symbolic link,
  the calls are \<open>RemoveAll\<close>, \<open>Symlink\<close> and \<open>Lchown\<close>, and \<open>Chmod\<close> is not called.
\<close>

theorem chmod_is_last_after_lchown:
  assumes "header e = Some h" and "\<not> HasPrefix (Base (Name h)) ''.wh.''" and "Name h \<notin> del st"
    and "entry_step st e = (None, st')"
  shows "(Typeflag h \<noteq> TypeSymlink \<longrightarrow>
            (\<exists>steps. oplog (disk st') =
                 oplog (disk st) @ [OpRemoveAll (Name h)] @ steps
                   @ [OpLchown (Name h) (Uid h) (Gid h), OpChmod (Name h) (FileInfo_Mode h)]
               \<and> (\<forall>s u g. OpLchown s u g \<notin> set steps) \<and> (\<forall>s m. OpChmod s m \<notin> set steps))
          \<and> (\<exists>n. node_at (disk st') (resolve (Name h)) = Some n
                 \<and> perm n = ucast (Mode h) AND 0xFFF \<and> uid n = Uid h \<and> gid n = Gid h))
       \<and> (Typeflag h = TypeSymlink \<longrightarrow>
            oplog (disk st') =
              oplog (disk st) @ [OpRemoveAll (Name h), OpSymlink (Linkname h) (Name h),
                                 OpLchown (Name h) (Uid h) (Gid h)])
       \<and> syscallMode (FileInfo_Mode h) = ucast (Mode h) AND 0xFFF"
proof -
  from entry_step_created[OF assms] obtain fs1 fs2 fs3 where
    R: "os_RemoveAll (disk st) (Name h) = (None, fs1)"
    and E: "create_entry h (FileInfo_Mode h) e fs1 = (None, fs2)"
    and L: "os_Lchown fs2 (Name h) (Uid h) (Gid h) = (None, fs3)"
    and M: "if Typeflag h \<noteq> TypeSymlink
            then os_Chmod fs3 (Name h) (FileInfo_Mode h) = (None, disk st') else disk st' = fs3"
    by blast
  from create_entry_log[OF E] obtain steps where
    st: "oplog fs2 = oplog fs1 @ steps"
        "Typeflag h = TypeSymlink \<longrightarrow> steps = [OpSymlink (Linkname h) (Name h)]"
        "\<forall>s u g. OpLchown s u g \<notin> set steps" "\<forall>s m. OpChmod s m \<notin> set steps"
    by blast
  have l1: "oplog fs1 = oplog (disk st) @ [OpRemoveAll (Name h)]" using R by (rule os_RemoveAll_log)
  have l3: "oplog fs3 = oplog fs2 @ [OpLchown (Name h) (Uid h) (Gid h)]" using L by (rule os_Lchown_log)
  have ne: "resolve (Name h) \<noteq> []"
    using os_RemoveAll_nonroot[OF R] os_Lchown_nonempty[OF L] by simp
  show ?thesis
  proof (cases "Typeflag h = TypeSymlink")
    case True
    with M st l1 l3 show ?thesis by (simp add: chmod_mode_bits)
  next
    case False
    with M have C: "os_Chmod fs3 (Name h) (FileInfo_Mode h) = (None, disk st')" by simp
    have l4: "oplog (disk st') = oplog fs3 @ [OpChmod (Name h) (FileInfo_Mode h)]"
      using C by (rule os_Chmod_log)
    from os_Lchown_owner[OF L ne] obtain i where
      i: "map_of (names fs3) (resolve (Name h)) = Some i" "uid (inodes fs3 i) = Uid h"
         "gid (inodes fs3 i) = Gid h" by blast
    from os_Chmod_perm[OF C ne] i(1) have
      c: "names (disk st') = names fs3"
         "inodes (disk st') = (inodes fs3)(i := (inodes fs3 i)\<lparr>perm := syscallMode (FileInfo_Mode h)\<rparr>)"
      by auto
    have "node_at (disk st') (resolve (Name h))
            = Some ((inodes fs3 i)\<lparr>perm := syscallMode (FileInfo_Mode h)\<rparr>)"
      using ne i(1) c by (simp add: node_at_def)
    then have node: "\<exists>n. node_at (disk st') (resolve (Name h)) = Some n
                 \<and> perm n = ucast (Mode h) AND 0xFFF \<and> uid n = Uid h \<and> gid n = Gid h"
      using i(2,3) by (simp add: chmod_mode_bits)
    have "oplog (disk st') =
            oplog (disk st) @ [OpRemoveAll (Name h)] @ steps
              @ [OpLchown (Name h) (Uid h) (Gid h), OpChmod (Name h) (FileInfo_Mode h)]"
      using l1 st(1) l3 l4 by simp
    with st(3,4) node False show ?thesis by (auto simp: chmod_mode_bits)
  qed
qed

lemma su_step:
  "entry_step fresh_layer (tar_entry ''su'' TypeReg 0x9ED ''x'')
     = (None, snd (entry_step fresh_layer (tar_entry ''su'' TypeReg 0x9ED ''x'')))"
proof -
  have "fst (entry_step fresh_layer (tar_entry ''su'' TypeReg 0x9ED ''x'')) = None" by code_simp
  then show ?thesis by (simp add: prod_eq_iff)
qed

theorem chmod_is_last_after_lchown_witness:
  "(\<exists>steps. oplog (disk (snd (entry_step fresh_layer (tar_entry ''su'' TypeReg 0x9ED ''x'')))) =
       [OpRemoveAll ''su''] @ steps
         @ [OpLchown ''su'' 0 0,
            OpChmod ''su'' (FileInfo_Mode \<lparr>Name = ''su'', Typeflag = TypeReg, Linkname = [],
                                          Uid = 0, Gid = 0, Mode = 0x9ED\<rparr>)])
   \<and> map_option perm (node_at (disk (snd (entry_step fresh_layer
                          (tar_entry ''su'' TypeReg 0x9ED ''x'')))) [''su'']) = Some 0x9ED"
proof -
  have h: "header (tar_entry ''su'' TypeReg 0x9ED ''x'')
             = Some \<lparr>Name = ''su'', Typeflag = TypeReg, Linkname = [], Uid = 0, Gid = 0, Mode = 0x9ED\<rparr>"
    by (simp add: tar_entry_def)
  have m: "\<not> HasPrefix (Base (Name \<lparr>Name = ''su'', Typeflag = TypeReg, Linkname = [],
                                    Uid = 0, Gid = 0, Mode = 0x9ED\<rparr>)) ''.wh.''"
    by code_simp
  have d: "Name \<lparr>Name = ''su'', Typeflag = TypeReg, Linkname = [], Uid = 0, Gid = 0,
                  Mode = 0x9ED :: 64 word\<rparr> \<notin> del fresh_layer"
    by (simp add: fresh_layer_def)
  have r: "resolve ''su'' = [''su'']" by code_simp
  have o: "oplog (disk fresh_layer) = []" by (simp add: fresh_layer_def empty_disk_def)
  from chmod_is_last_after_lchown[OF h m d su_step] show ?thesis
    by (auto simp: TypeSymlink_distinct r o)
qed

section \<open>Properties of the layer applier: entries replace what exists\<close>

























section \<open>Properties of the layer applier: digest and whiteouts\<close>

lemma entry_step_del: "entry_step st e = (r, st') \<Longrightarrow> del st' \<subseteq> del st"
  by (auto simp: entry_step_def classify_def finish_entry_def Let_def
      split: option.splits prod.splits if_splits
      dest: os_RemoveAll_not_ENOENT)

lemma layer_loop_del: "layer_loop st es fin = (r, st') \<Longrightarrow> del st' \<subseteq> del st"
proof (induction es arbitrary: st)
  case Nil
  then show ?case by (auto split: option.splits)
next
  case (Cons e es)
  obtain r1 st1 where s: "entry_step st e = (r1, st1)" by (cases "entry_step st e")
  from entry_step_del[OF s] Cons s show ?case
    by (cases r1) (auto simp: subset_iff)
qed




text \<open>
  Claim C2. The claim fails on the code: \<open>os.RemoveAll\<close> returns no error for a path that does
  not exist, so the branch that records the target in \<open>del\<close> is never taken
  (\<open>entry_step_del\<close>: the set never grows). For the layer with the whiteout \<open>.wh.foo\<close>, whose
  target \<open>foo\<close> does not exist, followed by the regular file \<open>foo\<close>: after the whiteout \<open>del\<close> is
  empty, the layer is applied with no error, and \<open>foo\<close> is created with its content.
\<close>

theorem whiteout_of_missing_target_is_not_recorded:
  "del (snd (entry_step fresh_layer (tar_entry ''.wh.foo'' TypeReg 0x1A4 []))) = {}
   \<and> fst (layer_loop fresh_layer
            [tar_entry ''.wh.foo'' TypeReg 0x1A4 [], tar_entry ''foo'' TypeReg 0x1A4 ''x''] None) = None
   \<and> map_option content (node_at (disk (snd (layer_loop fresh_layer
            [tar_entry ''.wh.foo'' TypeReg 0x1A4 [], tar_entry ''foo'' TypeReg 0x1A4 ''x''] None)))
         [''foo'']) = Some (Regular ''x'')"
  by code_simp

text \<open>
  Claim C5. The claim fails on the code for a child that the current layer has created under
  a name that is not the cleaned path: \<open>added\<close> holds the name of the header as it is, and the
  opaque marker looks up \<open>filepath.Join(dir, name)\<close>. For the layer with the directories \<open>a/\<close>
  and \<open>a/b/\<close> (tar names directories with a trailing slash) and then the marker
  \<open>a/.wh..wh..opq\<close>: before the marker \<open>a/b/\<close> is in \<open>added\<close> and \<open>a/b\<close> is a directory; the marker
  is applied with no error; afterwards \<open>a/b\<close> does not exist.
\<close>

theorem opaque_marker_removes_directory_of_this_layer:
  "''a/b/'' \<in> added (snd (layer_loop fresh_layer
            [tar_entry ''a/'' TypeDir 0x1ED [], tar_entry ''a/b/'' TypeDir 0x1ED []] None))
   \<and> map_option content (node_at (disk (snd (layer_loop fresh_layer
            [tar_entry ''a/'' TypeDir 0x1ED [], tar_entry ''a/b/'' TypeDir 0x1ED []] None)))
         [''a'', ''b'']) = Some Directory
   \<and> fst (layer_loop fresh_layer
            [tar_entry ''a/'' TypeDir 0x1ED [], tar_entry ''a/b/'' TypeDir 0x1ED [],
             tar_entry ''a/.wh..wh..opq'' TypeReg 0x1A4 []] None) = None
   \<and> node_at (disk (snd (layer_loop fresh_layer
            [tar_entry ''a/'' TypeDir 0x1ED [], tar_entry ''a/b/'' TypeDir 0x1ED [],
             tar_entry ''a/.wh..wh..opq'' TypeReg 0x1A4 []] None)))
         [''a'', ''b''] = None"
  by code_simp

end
